theory Spec2Isabelle
  imports Complex_Main
begin

section \<open>JavaScript numbers\<close>

text \<open>
  \<open>Calculus.js\<close> computes with JavaScript numbers. They are modelled by their value: a
  finite number carries a real, and the three special values of IEEE 754 are constructors
  of their own, since the arithmetic of the source produces and propagates them
  (\<open>1 / 0\<close> is \<open>Infinity\<close>, \<open>Infinity * 0\<close> is \<open>NaN\<close>). Rounding to 53 bits and the sign
  of zero are not modelled: every statement below reads \<open>+\<close>, \<open>-\<close>, \<open>*\<close> and \<open>/\<close> as the
  operations \<open>jadd\<close>, \<open>jsub\<close>, \<open>jmul\<close> and \<open>jdiv\<close> of this section.
\<close>

datatype jsnum = Fin real | PInf | NInf | NaN

fun jneg :: "jsnum \<Rightarrow> jsnum" where
  "jneg (Fin a) = Fin (- a)"
| "jneg PInf = NInf"
| "jneg NInf = PInf"
| "jneg NaN = NaN"

fun jadd :: "jsnum \<Rightarrow> jsnum \<Rightarrow> jsnum" where
  "jadd NaN _ = NaN"
| "jadd _ NaN = NaN"
| "jadd (Fin a) (Fin b) = Fin (a + b)"
| "jadd PInf NInf = NaN"
| "jadd NInf PInf = NaN"
| "jadd PInf _ = PInf"
| "jadd NInf _ = NInf"
| "jadd (Fin a) PInf = PInf"
| "jadd (Fin a) NInf = NInf"

definition jsub :: "jsnum \<Rightarrow> jsnum \<Rightarrow> jsnum" where
  "jsub a b = jadd a (jneg b)"

text \<open>An infinity times a finite number: the sign of the product, \<open>NaN\<close> at zero.\<close>

definition inf_times :: "bool \<Rightarrow> real \<Rightarrow> jsnum" where
  "inf_times positive b =
     (if b = 0 then NaN else if (0 < b) = positive then PInf else NInf)"

fun jmul :: "jsnum \<Rightarrow> jsnum \<Rightarrow> jsnum" where
  "jmul NaN _ = NaN"
| "jmul _ NaN = NaN"
| "jmul (Fin a) (Fin b) = Fin (a * b)"
| "jmul PInf (Fin b) = inf_times True b"
| "jmul NInf (Fin b) = inf_times False b"
| "jmul (Fin a) PInf = inf_times True a"
| "jmul (Fin a) NInf = inf_times False a"
| "jmul PInf PInf = PInf"
| "jmul NInf NInf = PInf"
| "jmul PInf NInf = NInf"
| "jmul NInf PInf = NInf"

fun jdiv :: "jsnum \<Rightarrow> jsnum \<Rightarrow> jsnum" where
  "jdiv NaN _ = NaN"
| "jdiv _ NaN = NaN"
| "jdiv (Fin a) (Fin b) =
     (if b = 0 then (if a = 0 then NaN else if 0 < a then PInf else NInf)
      else Fin (a / b))"
| "jdiv (Fin a) PInf = Fin 0"
| "jdiv (Fin a) NInf = Fin 0"
| "jdiv PInf (Fin b) = (if 0 \<le> b then PInf else NInf)"
| "jdiv NInf (Fin b) = (if 0 \<le> b then NInf else PInf)"
| "jdiv PInf _ = NaN"
| "jdiv NInf _ = NaN"

text \<open>\<open>Math.abs\<close>, \<open>Math.sqrt\<close> and the comparison \<open><\<close>, which is false at \<open>NaN\<close>.\<close>

fun jabs :: "jsnum \<Rightarrow> jsnum" where
  "jabs (Fin a) = Fin \<bar>a\<bar>"
| "jabs PInf = PInf"
| "jabs NInf = PInf"
| "jabs NaN = NaN"

fun jsqrt :: "jsnum \<Rightarrow> jsnum" where
  "jsqrt (Fin a) = (if a < 0 then NaN else Fin (sqrt a))"
| "jsqrt PInf = PInf"
| "jsqrt NInf = NaN"
| "jsqrt NaN = NaN"

fun jless :: "jsnum \<Rightarrow> jsnum \<Rightarrow> bool" where
  "jless NaN _ = False"
| "jless _ NaN = False"
| "jless (Fin a) (Fin b) = (a < b)"
| "jless NInf NInf = False"
| "jless NInf _ = True"
| "jless PInf _ = False"
| "jless (Fin a) PInf = True"
| "jless (Fin a) NInf = False"

fun is_finite :: "jsnum \<Rightarrow> bool" where
  "is_finite (Fin a) = True"
| "is_finite _ = False"

section \<open>Values, errors and the host\<close>

text \<open>
  The remaining JavaScript values that the plot objects hold, and the \<open>Error\<close> object with
  its message. A \<open>throw\<close> is the left injection of a sum.
\<close>

datatype jsval = Num jsnum | Str string | Bool bool | Obj "(string \<times> jsval) list"

datatype js_error = Error (message: string)

datatype zdata = NoZ | ZList "jsnum list" | ZGrid "jsnum list list"

text \<open>
  A Plotly trace. The fields every trace of the source has are fields of the record; the
  styling attributes that differ from trace to trace (\<open>colorscale\<close>, \<open>opacity\<close>,
  \<open>marker\<close>, \<open>line\<close>, ...) are the association list \<open>tr_style\<close>, in the order of the
  object literal.
\<close>

record trace =
  tr_x :: "jsnum list"
  tr_y :: "jsnum list"
  tr_z :: zdata
  tr_type :: string
  tr_mode :: "string option"
  tr_name :: "string option"
  tr_style :: "(string \<times> jsval) list"
  tr_visible :: bool

text \<open>
  What \<open>Calculus.js\<close> calls and does not define: math.js (\<open>math.parse\<close>,
  \<open>math.derivative\<close>, the \<open>evaluate\<close> and \<open>toString\<close> of a node), the number methods of
  the language, \<open>parseFloat\<close>, and \<open>Plotly.newPlot\<close>, whose promise is fulfilled (\<open>None\<close>)
  or rejected with an error. They are parameters of the model. \<open>node_evaluate h f x y\<close> is
  \<open>f.compile().evaluate({ x, y })\<close> and is taken to return a number when it returns.
\<close>

record 'n host =
  math_parse :: "string \<Rightarrow> js_error + 'n"
  math_derivative :: "'n \<Rightarrow> string \<Rightarrow> js_error + 'n"
  node_evaluate :: "'n \<Rightarrow> jsnum \<Rightarrow> jsnum \<Rightarrow> js_error + jsnum"
  node_toString :: "'n \<Rightarrow> string"
  number_toString :: "jsnum \<Rightarrow> string"
  number_toFixed :: "jsnum \<Rightarrow> nat \<Rightarrow> string"
  parseFloat :: "string \<Rightarrow> jsnum"
  plotly_newPlot :: "string \<Rightarrow> trace list \<Rightarrow> jsval \<Rightarrow> js_error option"

section \<open>The application state\<close>

record visibility =
  vis_surface :: bool
  vis_tangentPlane :: bool
  vis_gradient :: bool
  vis_contour :: bool
  vis_vectors :: bool

record 'n derivatives =
  d_fx0 :: jsnum
  d_fy0 :: jsnum
  d_f0 :: jsnum
  d_fx :: 'n
  d_fy :: 'n

record 'n plot3d =
  p3_surface :: trace
  p3_tangentPlane :: trace
  p3_point :: trace
  p3_gradient :: trace
  p3_derivatives :: "'n derivatives"

record plot2d =
  p2_contour :: trace
  p2_vectors :: "trace list"

record 'n appstate =
  currentFunction :: string
  app_x0 :: jsnum
  app_y0 :: jsnum
  isDarkMode :: bool
  plotVisibility :: visibility
  cachedPlots :: "string \<rightharpoonup> ('n plot3d \<times> plot2d)"
  isLoading :: bool

section \<open>Utilities\<close>

text \<open>\<open>Utils.formatNumber(num, decimals = 2)\<close>.\<close>

definition formatNumber :: "'n host \<Rightarrow> jsnum \<Rightarrow> string" where
  "formatNumber h num =
     (if jless (jabs num) (Fin (1 / 1000)) then ''0'' else number_toFixed h num 2)"

text \<open>
  \<open>Utils.validateExpression\<close>: parse, evaluate once at \<open>{ x: 1, y: 1 }\<close>, and turn a throw
  of either step into \<open>{ valid: false, error }\<close>.
\<close>

datatype 'n validation = Valid 'n | Invalid string

definition validateExpression :: "'n host \<Rightarrow> string \<Rightarrow> 'n validation" where
  "validateExpression h expr =
     (case math_parse h expr of
        Inl e \<Rightarrow> Invalid (message e)
      | Inr parsed \<Rightarrow>
          (case node_evaluate h parsed (Fin 1) (Fin 1) of
             Inl e \<Rightarrow> Invalid (message e)
           | Inr _ \<Rightarrow> Valid parsed))"

section \<open>Plot data\<close>

text \<open>
  \<open>math.range(start, end, step).toArray()\<close> for a positive step: the multiples of the step
  from \<open>start\<close>, the end excluded.
\<close>

definition math_range :: "real \<Rightarrow> real \<Rightarrow> real \<Rightarrow> jsnum list" where
  "math_range start end step =
     map (\<lambda>i. Fin (start + real i * step)) [0..<nat \<lceil>(end - start) / step\<rceil>]"

text \<open>\<open>xs.map(f)\<close> for an \<open>f\<close> that may throw: the first throw ends the whole map.\<close>

fun mapM :: "('a \<Rightarrow> 'e + 'b) \<Rightarrow> 'a list \<Rightarrow> 'e + 'b list" where
  "mapM f [] = Inr []"
| "mapM f (x # xs) =
     (case f x of
        Inl e \<Rightarrow> Inl e
      | Inr v \<Rightarrow> (case mapM f xs of Inl e \<Rightarrow> Inl e | Inr vs \<Rightarrow> Inr (v # vs)))"

text \<open>The tangent plane of line 156.\<close>

definition tangent :: "jsnum \<Rightarrow> jsnum \<Rightarrow> jsnum \<Rightarrow> jsnum \<Rightarrow> jsnum \<Rightarrow> jsnum \<Rightarrow> jsnum \<Rightarrow> jsnum" where
  "tangent f0 fx0 fy0 x0 y0 x y =
     jadd (jadd f0 (jmul fx0 (jsub x x0))) (jmul fy0 (jsub y y0))"

text \<open>Sequencing of steps that may throw.\<close>

definition bind_err :: "'e + 'a \<Rightarrow> ('a \<Rightarrow> 'e + 'b) \<Rightarrow> 'e + 'b" where
  "bind_err r k = (case r of Inl e \<Rightarrow> Inl e | Inr v \<Rightarrow> k v)"

text \<open>The object literal that \<open>generate3DPlotData\<close> returns (lines 159 to 201).\<close>

definition plot3d_object ::
  "'n host \<Rightarrow> 'n appstate \<Rightarrow> jsnum \<Rightarrow> jsnum \<Rightarrow> jsnum list \<Rightarrow> jsnum list \<Rightarrow>
   jsnum list list \<Rightarrow> jsnum list list \<Rightarrow> jsnum \<Rightarrow> jsnum \<Rightarrow> jsnum \<Rightarrow> 'n \<Rightarrow> 'n \<Rightarrow> 'n plot3d" where
  "plot3d_object h s x0 y0 xVals yVals zVals tangentZ fx0 fy0 f0 fx fy = \<lparr>
     p3_surface = \<lparr>
       tr_x = xVals, tr_y = yVals, tr_z = ZGrid zVals,
       tr_type = ''surface'', tr_mode = None, tr_name = Some ''f(x,y)'',
       tr_style = [(''colorscale'', Str (if isDarkMode s then ''Viridis'' else ''Blues''))],
       tr_visible = vis_surface (plotVisibility s) \<rparr>,
     p3_tangentPlane = \<lparr>
       tr_x = xVals, tr_y = yVals, tr_z = ZGrid tangentZ,
       tr_type = ''surface'', tr_mode = None, tr_name = Some ''Tangent Plane'',
       tr_style = [(''opacity'', Num (Fin (6 / 10))),
                   (''colorscale'', Str (if isDarkMode s then ''YlOrRd'' else ''Reds'')),
                   (''showscale'', Bool False)],
       tr_visible = vis_tangentPlane (plotVisibility s) \<rparr>,
     p3_point = \<lparr>
       tr_x = [x0], tr_y = [y0], tr_z = ZList [f0],
       tr_type = ''scatter3d'', tr_mode = Some ''markers'',
       tr_name = Some (''('' @ formatNumber h x0 @ '', '' @ formatNumber h y0 @ '')''),
       tr_style = [(''marker'', Obj [(''size'', Num (Fin 8)), (''color'', Str ''#ef4444'')])],
       tr_visible = True \<rparr>,
     p3_gradient = \<lparr>
       tr_x = [x0, jadd x0 (jdiv fx0 (Fin 2))],
       tr_y = [y0, jadd y0 (jdiv fy0 (Fin 2))],
       tr_z = ZList [f0, jadd f0 (jdiv (jadd fx0 fy0) (Fin 2))],
       tr_type = ''scatter3d'', tr_mode = Some ''lines'', tr_name = Some ''Gradient'',
       tr_style = [(''line'', Obj [(''width'', Num (Fin 6)), (''color'', Str ''#ef4444'')])],
       tr_visible = vis_gradient (plotVisibility s) \<rparr>,
     p3_derivatives = \<lparr> d_fx0 = fx0, d_fy0 = fy0, d_f0 = f0, d_fx = fx, d_fy = fy \<rparr> \<rparr>"

text \<open>The body of the \<open>try\<close> of \<open>PlotManager.generate3DPlotData\<close>.\<close>

definition generate3D_try ::
  "'n host \<Rightarrow> 'n appstate \<Rightarrow> string \<Rightarrow> jsnum \<Rightarrow> jsnum \<Rightarrow> js_error + 'n plot3d" where
  "generate3D_try h s expr x0 y0 =
     bind_err (math_parse h expr) (\<lambda>f.
     bind_err (math_derivative h f ''x'') (\<lambda>fx.
     bind_err (math_derivative h f ''y'') (\<lambda>fy.
     let range = math_range (- 5) 5 (1 / 4);
         xVals = range;
         yVals = range
     in
     bind_err (mapM (\<lambda>x. mapM (\<lambda>y. node_evaluate h f x y) yVals) xVals) (\<lambda>zVals.
     bind_err (node_evaluate h fx x0 y0) (\<lambda>fx0.
     bind_err (node_evaluate h fy x0 y0) (\<lambda>fy0.
     bind_err (node_evaluate h f x0 y0) (\<lambda>f0.
     let tangentZ = map (\<lambda>x. map (\<lambda>y. tangent f0 fx0 fy0 x0 y0 x y) yVals) xVals
     in Inr (plot3d_object h s x0 y0 xVals yVals zVals tangentZ fx0 fy0 f0 fx fy))))))))"

text \<open>\<open>PlotManager.generate3DPlotData\<close>: the \<open>catch\<close> rethrows with a prefixed message.\<close>

definition generate3DPlotData ::
  "'n host \<Rightarrow> 'n appstate \<Rightarrow> string \<Rightarrow> jsnum \<Rightarrow> jsnum \<Rightarrow> js_error + 'n plot3d" where
  "generate3DPlotData h s expr x0 y0 =
     (case generate3D_try h s expr x0 y0 of
        Inl e \<Rightarrow> Inl (Error (''Error generating 3D plot: '' @ message e))
      | Inr d \<Rightarrow> Inr d)"

text \<open>
  One arrow of the gradient field (lines 227 to 237): the two derivatives are evaluated
  at the grid point, \<open>fx\<close> first.
\<close>

definition vector_at :: "'n host \<Rightarrow> 'n appstate \<Rightarrow> 'n \<Rightarrow> 'n \<Rightarrow> jsnum \<Rightarrow> jsnum \<Rightarrow> js_error + trace" where
  "vector_at h s fx fy x y =
     bind_err (node_evaluate h fx x y) (\<lambda>gx.
     bind_err (node_evaluate h fy x y) (\<lambda>gy.
     Inr \<lparr>
       tr_x = [x, jadd x (jmul (Fin (2 / 10)) gx)],
       tr_y = [y, jadd y (jmul (Fin (2 / 10)) gy)],
       tr_z = NoZ,
       tr_type = ''scatter'', tr_mode = Some ''lines'', tr_name = None,
       tr_style = [(''line'', Obj [(''color'', Str ''#1e293b''), (''width'', Num (Fin 1))]),
                   (''showlegend'', Bool False)],
       tr_visible = vis_vectors (plotVisibility s) \<rparr>))"

text \<open>
  The body of the \<open>try\<close> of \<open>PlotManager.generate2DPlotData\<close>. The nested \<open>forEach\<close>
  pushes the arrows row by row, so \<open>vectors\<close> is the concatenation of the rows.
\<close>

definition contour_object :: "'n appstate \<Rightarrow> jsnum list \<Rightarrow> jsnum list \<Rightarrow> jsnum list list \<Rightarrow> trace" where
  "contour_object s xs ys contourZ = \<lparr>
     tr_x = xs, tr_y = ys, tr_z = ZGrid contourZ,
     tr_type = ''contour'', tr_mode = None, tr_name = None,
     tr_style = [(''contours'', Obj [(''coloring'', Str ''heatmap'')]),
                 (''showscale'', Bool False)],
     tr_visible = vis_contour (plotVisibility s) \<rparr>"

definition generate2D_try ::
  "'n host \<Rightarrow> 'n appstate \<Rightarrow> string \<Rightarrow> jsnum \<Rightarrow> jsnum \<Rightarrow> js_error + plot2d" where
  "generate2D_try h s expr x0 y0 =
     bind_err (math_parse h expr) (\<lambda>f.
     bind_err (math_derivative h f ''x'') (\<lambda>fx.
     bind_err (math_derivative h f ''y'') (\<lambda>fy.
     let gridStep = 1 / 2;
         xs = math_range (- 5) 5 gridStep;
         ys = math_range (- 5) 5 gridStep
     in
     bind_err (mapM (\<lambda>x. mapM (\<lambda>y. node_evaluate h f x y) ys) xs) (\<lambda>contourZ.
     bind_err (mapM (\<lambda>x. mapM (\<lambda>y. vector_at h s fx fy x y) ys) xs) (\<lambda>rows.
     Inr \<lparr> p2_contour = contour_object s xs ys contourZ, p2_vectors = concat rows \<rparr>)))))"

definition generate2DPlotData ::
  "'n host \<Rightarrow> 'n appstate \<Rightarrow> string \<Rightarrow> jsnum \<Rightarrow> jsnum \<Rightarrow> js_error + plot2d" where
  "generate2DPlotData h s expr x0 y0 =
     (case generate2D_try h s expr x0 y0 of
        Inl e \<Rightarrow> Inl (Error (''Error generating 2D plot: '' @ message e))
      | Inr d \<Rightarrow> Inr d)"

section \<open>Rendering and the controller\<close>

text \<open>
  What a run does beyond changing \<open>AppState\<close> is recorded, in order, in a log: the
  loading overlay's \<open>display\<close>, the notices of \<open>Utils.showError\<close> and \<open>console.error\<close>,
  the calls of the two generators, the calls of \<open>Plotly.newPlot\<close> and the analysis
  written to \<open>#info\<close>.
\<close>

datatype event =
    SetDisplay string string
  | ShowError string
  | ConsoleError string
  | Generate3D string jsnum jsnum
  | Generate2D string jsnum jsnum
  | NewPlot string "trace list" jsval
  | SetInfo "string list"

text \<open>
  The world of a run: \<open>AppState\<close>, the values of the three input elements \<open>#func\<close>,
  \<open>#x0\<close> and \<open>#y0\<close>, and the log.
\<close>

record 'n world =
  app :: "'n appstate"
  func_value :: string
  x0_value :: string
  y0_value :: string
  events :: "event list"

definition emit :: "event \<Rightarrow> 'n world \<Rightarrow> 'n world" where
  "emit ev w = w\<lparr>events := events w @ [ev]\<rparr>"

definition showLoading :: "'n world \<Rightarrow> 'n world" where
  "showLoading w =
     emit (SetDisplay ''loadingOverlay'' ''flex'') (w\<lparr>app := (app w)\<lparr>isLoading := True\<rparr>\<rparr>)"

definition hideLoading :: "'n world \<Rightarrow> 'n world" where
  "hideLoading w =
     emit (SetDisplay ''loadingOverlay'' ''none'') (w\<lparr>app := (app w)\<lparr>isLoading := False\<rparr>\<rparr>)"

definition showError :: "string \<Rightarrow> 'n world \<Rightarrow> 'n world" where
  "showError msg w = emit (ShowError msg) w"

text \<open>\<open>String.prototype.trim\<close>, on the white space of ASCII.\<close>

definition is_space :: "char \<Rightarrow> bool" where
  "is_space c = (c \<in> set [CHR '' '', CHR 0x09, CHR 0x0A, CHR 0x0B, CHR 0x0C, CHR 0x0D])"

definition trim :: "string \<Rightarrow> string" where
  "trim s = rev (dropWhile is_space (rev (dropWhile is_space s)))"

definition axis_color :: "bool \<Rightarrow> jsval" where
  "axis_color dark = Str (if dark then ''#f8fafc'' else ''#1e293b'')"

definition layout3d :: "bool \<Rightarrow> jsval" where
  "layout3d dark = Obj [
     (''scene'', Obj [
        (''xaxis'', Obj [(''title'', Str ''x''), (''color'', axis_color dark)]),
        (''yaxis'', Obj [(''title'', Str ''y''), (''color'', axis_color dark)]),
        (''zaxis'', Obj [(''title'', Str ''z''), (''color'', axis_color dark)]),
        (''bgcolor'', Str (if dark then ''#0f172a'' else ''#ffffff''))]),
     (''margin'', Obj [(''t'', Num (Fin 0)), (''l'', Num (Fin 0)),
                       (''r'', Num (Fin 0)), (''b'', Num (Fin 0))]),
     (''paper_bgcolor'', Str ''transparent''),
     (''plot_bgcolor'', Str ''transparent''),
     (''font'', Obj [(''color'', axis_color dark)])]"

definition layout2d :: "bool \<Rightarrow> jsval" where
  "layout2d dark = Obj [
     (''xaxis'', Obj [(''title'', Str ''x''), (''color'', axis_color dark),
                      (''gridcolor'', Str (if dark then ''#334155'' else ''#e2e8f0''))]),
     (''yaxis'', Obj [(''title'', Str ''y''), (''color'', axis_color dark),
                      (''gridcolor'', Str (if dark then ''#334155'' else ''#e2e8f0''))]),
     (''margin'', Obj [(''t'', Num (Fin 40)), (''l'', Num (Fin 40)),
                       (''r'', Num (Fin 40)), (''b'', Num (Fin 40))]),
     (''paper_bgcolor'', Str ''transparent''),
     (''plot_bgcolor'', Str ''transparent''),
     (''font'', Obj [(''color'', axis_color dark)]),
     (''title'', Obj [(''text'', Str ''2D Contour & Gradient Field''),
                      (''font'', Obj [(''size'', Num (Fin 16)), (''color'', axis_color dark)])])]"

text \<open>The trace lists of \<open>render3DPlot\<close> and \<open>render2DPlot\<close>: the visible traces only.\<close>

definition traces3d :: "'n plot3d \<Rightarrow> trace list" where
  "traces3d plotData =
     filter tr_visible
       [p3_surface plotData, p3_tangentPlane plotData, p3_point plotData, p3_gradient plotData]"

definition traces2d :: "plot2d \<Rightarrow> trace list" where
  "traces2d plotData = filter tr_visible (p2_contour plotData # p2_vectors plotData)"

text \<open>
  \<open>render3DPlot\<close> and \<open>render2DPlot\<close> call \<open>Plotly.newPlot\<close> and return its promise: the
  call is logged and the outcome of the promise is the result.
\<close>

definition render3DPlot :: "'n host \<Rightarrow> 'n plot3d \<Rightarrow> 'n world \<Rightarrow> js_error option \<times> 'n world" where
  "render3DPlot h plotData w =
     (let traces = traces3d plotData;
          layout = layout3d (isDarkMode (app w))
      in (plotly_newPlot h ''plot3d'' traces layout, emit (NewPlot ''plot3d'' traces layout) w))"

definition render2DPlot :: "'n host \<Rightarrow> plot2d \<Rightarrow> 'n world \<Rightarrow> js_error option \<times> 'n world" where
  "render2DPlot h plotData w =
     (let traces = traces2d plotData;
          layout = layout2d (isDarkMode (app w))
      in (plotly_newPlot h ''plot2d'' traces layout, emit (NewPlot ''plot2d'' traces layout) w))"

text \<open>
  \<open>updateAnalysisSection\<close> writes a fixed HTML template to \<open>#info\<close>; the log keeps the
  interpolated texts, in the order of the template.
\<close>

definition updateAnalysisSection ::
  "'n host \<Rightarrow> 'n derivatives \<Rightarrow> jsnum \<Rightarrow> jsnum \<Rightarrow> 'n world \<Rightarrow> 'n world" where
  "updateAnalysisSection h ds x0 y0 w =
     (let fx0 = d_fx0 ds; fy0 = d_fy0 ds; f0 = d_f0 ds; fx = d_fx ds; fy = d_fy ds;
          px = formatNumber h x0; py = formatNumber h y0
      in emit (SetInfo [
           node_toString h fx, node_toString h fy,
           px, py,
           px, py, formatNumber h f0,
           px, py, formatNumber h fx0,
           px, py, formatNumber h fy0,
           px, py, formatNumber h fx0, formatNumber h fy0,
           formatNumber h (jsqrt (jadd (jmul fx0 fx0) (jmul fy0 fy0)))]) w)"

text \<open>The cache key of line 350, a template string.\<close>

definition cacheKey :: "'n host \<Rightarrow> string \<Rightarrow> jsnum \<Rightarrow> jsnum \<Rightarrow> bool \<Rightarrow> string" where
  "cacheKey h expr x0 y0 dark =
     expr @ ''_'' @ number_toString h x0 @ ''_'' @ number_toString h y0 @ ''_'' @
     (if dark then ''true'' else ''false'')"

text \<open>
  The body of the \<open>try\<close> of \<open>plotFunction\<close>: the error thrown, if any, and the world at
  that moment. Both renderers are called before \<open>Promise.all\<close> is awaited; a rejection of
  the 3D plot is taken to come first.
\<close>

definition plotFunction_try :: "'n host \<Rightarrow> 'n world \<Rightarrow> js_error option \<times> 'n world" where
  "plotFunction_try h w =
     (let w1 = showLoading w;
          expr = trim (func_value w1);
          x0 = parseFloat h (x0_value w1);
          y0 = parseFloat h (y0_value w1)
      in
      if expr = [] then (Some (Error ''Please enter a function''), w1)
      else
        (case validateExpression h expr of
           Invalid err \<Rightarrow> (Some (Error (''Invalid function: '' @ err)), w1)
         | Valid parsed \<Rightarrow>
             (let w2 = w1\<lparr>app := (app w1)\<lparr>currentFunction := expr, app_x0 := x0, app_y0 := y0\<rparr>\<rparr>;
                  w3 = emit (Generate3D expr x0 y0) w2
              in
              case generate3DPlotData h (app w3) expr x0 y0 of
                Inl e \<Rightarrow> (Some e, w3)
              | Inr plot3dData \<Rightarrow>
                  (let w4 = emit (Generate2D expr x0 y0) w3 in
                   case generate2DPlotData h (app w4) expr x0 y0 of
                     Inl e \<Rightarrow> (Some e, w4)
                   | Inr plot2dData \<Rightarrow>
                       (let r3 = render3DPlot h plot3dData w4;
                            r2 = render2DPlot h plot2dData (snd r3);
                            w6 = snd r2
                        in
                        case fst r3 of
                          Some e \<Rightarrow> (Some e, w6)
                        | None \<Rightarrow>
                            (case fst r2 of
                               Some e \<Rightarrow> (Some e, w6)
                             | None \<Rightarrow>
                                 (let w7 = updateAnalysisSection h (p3_derivatives plot3dData) x0 y0 w6;
                                      key = cacheKey h expr x0 y0 (isDarkMode (app w7))
                                  in (None,
                                      w7\<lparr>app := (app w7)\<lparr>cachedPlots :=
                                          (cachedPlots (app w7))(key \<mapsto> (plot3dData, plot2dData))\<rparr>\<rparr>))))))))"

text \<open>\<open>plotFunction\<close>: the \<open>catch\<close> shows and logs the message, the \<open>finally\<close> hides the overlay.\<close>

definition plotFunction :: "'n host \<Rightarrow> 'n world \<Rightarrow> 'n world" where
  "plotFunction h w =
     (case plotFunction_try h w of
        (None, w') \<Rightarrow> hideLoading w'
      | (Some e, w') \<Rightarrow> hideLoading (emit (ConsoleError (message e)) (showError (message e) w')))"

text \<open>The five toggles: flip one flag of \<open>AppState.plotVisibility\<close>, then plot again.\<close>

definition flipSurface :: "'n appstate \<Rightarrow> 'n appstate" where
  "flipSurface s =
     s\<lparr>plotVisibility := (plotVisibility s)\<lparr>vis_surface := \<not> vis_surface (plotVisibility s)\<rparr>\<rparr>"

definition flipPlane :: "'n appstate \<Rightarrow> 'n appstate" where
  "flipPlane s =
     s\<lparr>plotVisibility := (plotVisibility s)\<lparr>vis_tangentPlane := \<not> vis_tangentPlane (plotVisibility s)\<rparr>\<rparr>"

definition flipGradient :: "'n appstate \<Rightarrow> 'n appstate" where
  "flipGradient s =
     s\<lparr>plotVisibility := (plotVisibility s)\<lparr>vis_gradient := \<not> vis_gradient (plotVisibility s)\<rparr>\<rparr>"

definition flipContour :: "'n appstate \<Rightarrow> 'n appstate" where
  "flipContour s =
     s\<lparr>plotVisibility := (plotVisibility s)\<lparr>vis_contour := \<not> vis_contour (plotVisibility s)\<rparr>\<rparr>"

definition flipVectors :: "'n appstate \<Rightarrow> 'n appstate" where
  "flipVectors s =
     s\<lparr>plotVisibility := (plotVisibility s)\<lparr>vis_vectors := \<not> vis_vectors (plotVisibility s)\<rparr>\<rparr>"

definition toggleSurface :: "'n host \<Rightarrow> 'n world \<Rightarrow> 'n world" where
  "toggleSurface h w = plotFunction h (w\<lparr>app := flipSurface (app w)\<rparr>)"

definition togglePlane :: "'n host \<Rightarrow> 'n world \<Rightarrow> 'n world" where
  "togglePlane h w = plotFunction h (w\<lparr>app := flipPlane (app w)\<rparr>)"

definition toggleGradient :: "'n host \<Rightarrow> 'n world \<Rightarrow> 'n world" where
  "toggleGradient h w = plotFunction h (w\<lparr>app := flipGradient (app w)\<rparr>)"

definition toggleContour :: "'n host \<Rightarrow> 'n world \<Rightarrow> 'n world" where
  "toggleContour h w = plotFunction h (w\<lparr>app := flipContour (app w)\<rparr>)"

definition toggleVectors :: "'n host \<Rightarrow> 'n world \<Rightarrow> 'n world" where
  "toggleVectors h w = plotFunction h (w\<lparr>app := flipVectors (app w)\<rparr>)"

section \<open>Reading a result\<close>

text \<open>The entry of a grid, and the heights of the two surfaces of a result.\<close>

definition grid_at :: "zdata \<Rightarrow> nat \<Rightarrow> nat \<Rightarrow> jsnum option" where
  "grid_at z i j =
     (case z of
        ZGrid g \<Rightarrow> (if i < length g \<and> j < length (g ! i) then Some (g ! i ! j) else None)
      | _ \<Rightarrow> None)"

definition surface_at :: "js_error + 'n plot3d \<Rightarrow> nat \<Rightarrow> nat \<Rightarrow> jsnum option" where
  "surface_at r i j =
     (case r of Inl _ \<Rightarrow> None | Inr d \<Rightarrow> grid_at (tr_z (p3_surface d)) i j)"

definition tangent_at :: "js_error + 'n plot3d \<Rightarrow> nat \<Rightarrow> nat \<Rightarrow> jsnum option" where
  "tangent_at r i j =
     (case r of Inl _ \<Rightarrow> None | Inr d \<Rightarrow> grid_at (tr_z (p3_tangentPlane d)) i j)"

text \<open>Whether the surface of a result is among the traces handed to the renderer.\<close>

definition surface_rendered :: "js_error + 'n plot3d \<Rightarrow> bool" where
  "surface_rendered r =
     (case r of Inl _ \<Rightarrow> False | Inr d \<Rightarrow> p3_surface d \<in> set (traces3d d))"

definition center_value :: "js_error + 'n plot3d \<Rightarrow> jsnum option" where
  "center_value r = (case r of Inl _ \<Rightarrow> None | Inr d \<Rightarrow> Some (d_f0 (p3_derivatives d)))"

text \<open>The grid points of the 3D plot, by index: \<open>-5, -4.75, ..., 4.75\<close>.\<close>

definition grid3 :: "nat \<Rightarrow> jsnum" where
  "grid3 i = Fin (- 5 + real i * (1 / 4))"

text \<open>The grid points of the 2D plot, by index: \<open>-5, -4.5, ..., 4.5\<close>.\<close>

definition grid2 :: "nat \<Rightarrow> jsnum" where
  "grid2 i = Fin (- 5 + real i * (1 / 2))"

definition is_generate :: "event \<Rightarrow> bool" where
  "is_generate ev = (case ev of Generate3D _ _ _ \<Rightarrow> True | Generate2D _ _ _ \<Rightarrow> True | _ \<Rightarrow> False)"

text \<open>The cache key of the request that the input elements of a world describe.\<close>

definition request_key :: "'n host \<Rightarrow> 'n world \<Rightarrow> string" where
  "request_key h w =
     cacheKey h (trim (func_value w)) (parseFloat h (x0_value w)) (parseFloat h (y0_value w))
       (isDarkMode (app w))"

section \<open>An instance of the host\<close>

text \<open>
  To run the model on concrete requests, a small evaluator stands for math.js: expression
  trees over \<open>x\<close> and \<open>y\<close> with the four operations, powers with a constant natural
  exponent, negation, and \<open>nthRoot\<close> with one argument. It follows math.js on numbers:
  division by zero returns an infinity or \<open>NaN\<close> and does not throw, an undefined symbol
  throws, and \<open>nthRoot\<close> of a negative number throws
  \<open>Root must be odd when a is negative.\<close>
\<close>

datatype node =
    ConstantNode real
  | SymbolNode string
  | Add node node
  | Subtract node node
  | Multiply node node
  | Divide node node
  | Pow node nat
  | UnaryMinus node
  | NthRoot node

fun jpow :: "jsnum \<Rightarrow> nat \<Rightarrow> jsnum" where
  "jpow v 0 = Fin 1"
| "jpow v (Suc n) = jmul v (jpow v n)"

definition nthRoot :: "jsnum \<Rightarrow> js_error + jsnum" where
  "nthRoot v =
     (case v of
        Fin a \<Rightarrow> (if a < 0 then Inl (Error ''Root must be odd when a is negative.'')
                  else Inr (Fin (sqrt a)))
      | _ \<Rightarrow> Inr (jsqrt v))"

fun mini_evaluate :: "node \<Rightarrow> jsnum \<Rightarrow> jsnum \<Rightarrow> js_error + jsnum" where
  "mini_evaluate (ConstantNode c) x y = Inr (Fin c)"
| "mini_evaluate (SymbolNode v) x y =
     (if v = ''x'' then Inr x else if v = ''y'' then Inr y
      else Inl (Error (''Undefined symbol '' @ v)))"
| "mini_evaluate (Add a b) x y =
     bind_err (mini_evaluate a x y) (\<lambda>u. bind_err (mini_evaluate b x y) (\<lambda>v. Inr (jadd u v)))"
| "mini_evaluate (Subtract a b) x y =
     bind_err (mini_evaluate a x y) (\<lambda>u. bind_err (mini_evaluate b x y) (\<lambda>v. Inr (jsub u v)))"
| "mini_evaluate (Multiply a b) x y =
     bind_err (mini_evaluate a x y) (\<lambda>u. bind_err (mini_evaluate b x y) (\<lambda>v. Inr (jmul u v)))"
| "mini_evaluate (Divide a b) x y =
     bind_err (mini_evaluate a x y) (\<lambda>u. bind_err (mini_evaluate b x y) (\<lambda>v. Inr (jdiv u v)))"
| "mini_evaluate (Pow a n) x y = bind_err (mini_evaluate a x y) (\<lambda>u. Inr (jpow u n))"
| "mini_evaluate (UnaryMinus a) x y = bind_err (mini_evaluate a x y) (\<lambda>u. Inr (jneg u))"
| "mini_evaluate (NthRoot a) x y = bind_err (mini_evaluate a x y) nthRoot"

text \<open>
  Symbolic differentiation by the rules math.js applies, without its final simplification:
  a subtree that does not contain the variable differentiates to \<open>0\<close>, a constant factor
  and a constant divisor are kept, a constant numerator takes the reciprocal rule.
\<close>

fun depends :: "node \<Rightarrow> string \<Rightarrow> bool" where
  "depends (ConstantNode c) v = False"
| "depends (SymbolNode u) v = (u = v)"
| "depends (Add a b) v = (depends a v \<or> depends b v)"
| "depends (Subtract a b) v = (depends a v \<or> depends b v)"
| "depends (Multiply a b) v = (depends a v \<or> depends b v)"
| "depends (Divide a b) v = (depends a v \<or> depends b v)"
| "depends (Pow a n) v = depends a v"
| "depends (UnaryMinus a) v = depends a v"
| "depends (NthRoot a) v = depends a v"

fun diff :: "node \<Rightarrow> string \<Rightarrow> node" where
  "diff (ConstantNode c) v = ConstantNode 0"
| "diff (SymbolNode u) v = ConstantNode (if u = v then 1 else 0)"
| "diff (Add a b) v = Add (diff a v) (diff b v)"
| "diff (Subtract a b) v = Subtract (diff a v) (diff b v)"
| "diff (Multiply a b) v =
     (if \<not> depends a v \<and> \<not> depends b v then ConstantNode 0
      else if \<not> depends a v then Multiply a (diff b v)
      else if \<not> depends b v then Multiply b (diff a v)
      else Add (Multiply (diff a v) b) (Multiply a (diff b v)))"
| "diff (Divide a b) v =
     (if \<not> depends a v \<and> \<not> depends b v then ConstantNode 0
      else if \<not> depends b v then Divide (diff a v) b
      else if \<not> depends a v then Multiply (UnaryMinus a) (Divide (diff b v) (Pow b 2))
      else Divide (Subtract (Multiply (diff a v) b) (Multiply a (diff b v))) (Pow b 2))"
| "diff (Pow a n) v =
     (if \<not> depends a v then ConstantNode 0
      else Multiply (Multiply (ConstantNode (real n)) (Pow a (n - 1))) (diff a v))"
| "diff (UnaryMinus a) v = UnaryMinus (diff a v)"
| "diff (NthRoot a) v =
     (if \<not> depends a v then ConstantNode 0
      else Divide (diff a v) (Multiply (ConstantNode 2) (NthRoot a)))"

text \<open>
  The parser of the instance knows the expressions of the examples below and rejects
  every other text, among them the incomplete \<open>x +\<close>.
\<close>

definition mini_parse :: "string \<Rightarrow> js_error + node" where
  "mini_parse s =
     (if s = ''x^2 + y^2'' then Inr (Add (Pow (SymbolNode ''x'') 2) (Pow (SymbolNode ''y'') 2))
      else if s = ''x^2'' then Inr (Pow (SymbolNode ''x'') 2)
      else if s = ''x*y'' then Inr (Multiply (SymbolNode ''x'') (SymbolNode ''y''))
      else if s = ''1/x'' then Inr (Divide (ConstantNode 1) (SymbolNode ''x''))
      else if s = ''nthRoot(x)'' then Inr (NthRoot (SymbolNode ''x''))
      else Inl (Error ''Unexpected end of expression''))"

text \<open>
  Decimal text of numbers. \<open>mini_toFixed\<close> rounds half away from zero, as \<open>toFixed\<close> does;
  \<open>mini_toString\<close> is \<open>Number.prototype.toString\<close> on integer values and the special
  values, which is where the examples use it, and prints two decimals elsewhere.
\<close>

definition digit :: "nat \<Rightarrow> char" where
  "digit n = ''0123456789'' ! (n mod 10)"

fun show_nat :: "nat \<Rightarrow> string" where
  "show_nat n = (if n < 10 then [digit n] else show_nat (n div 10) @ [digit n])"

declare show_nat.simps [simp del]

definition pad_zeros :: "nat \<Rightarrow> string \<Rightarrow> string" where
  "pad_zeros k s = replicate (k - length s) (CHR ''0'') @ s"

definition sign_text :: "real \<Rightarrow> string" where
  "sign_text a = (if a < 0 then ''-'' else [])"

definition mini_toFixed :: "jsnum \<Rightarrow> nat \<Rightarrow> string" where
  "mini_toFixed v d =
     (case v of
        NaN \<Rightarrow> ''NaN''
      | PInf \<Rightarrow> ''Infinity''
      | NInf \<Rightarrow> ''-Infinity''
      | Fin a \<Rightarrow>
          (let n = nat \<lfloor>\<bar>a\<bar> * 10 ^ d + 1 / 2\<rfloor>;
               body = (if d = 0 then show_nat n
                       else show_nat (n div 10 ^ d) @ ''.'' @ pad_zeros d (show_nat (n mod 10 ^ d)))
           in sign_text a @ body))"

definition mini_toString :: "jsnum \<Rightarrow> string" where
  "mini_toString v =
     (case v of
        Fin a \<Rightarrow> (if a = of_int \<lfloor>a\<rfloor> then sign_text a @ show_nat (nat \<bar>\<lfloor>a\<rfloor>\<bar>)
                  else mini_toFixed v 2)
      | _ \<Rightarrow> mini_toFixed v 0)"

text \<open>\<open>parseFloat\<close> on an optional sign and decimal digits; \<open>NaN\<close> on every other text.\<close>

definition digit_value :: "char \<Rightarrow> nat" where
  "digit_value c = of_char c - 48"

definition is_digit :: "char \<Rightarrow> bool" where
  "is_digit c = (48 \<le> (of_char c :: nat) \<and> (of_char c :: nat) \<le> 57)"

definition parse_digits :: "string \<Rightarrow> jsnum" where
  "parse_digits s =
     (if s \<noteq> [] \<and> list_all is_digit s
      then Fin (real (foldl (\<lambda>n c. 10 * n + digit_value c) 0 s))
      else NaN)"

definition mini_parseFloat :: "string \<Rightarrow> jsnum" where
  "mini_parseFloat s =
     (case s of
        [] \<Rightarrow> NaN
      | c # cs \<Rightarrow> (if c = CHR ''-'' then jneg (parse_digits cs) else parse_digits s))"

fun node_text :: "node \<Rightarrow> string" where
  "node_text (ConstantNode c) = mini_toString (Fin c)"
| "node_text (SymbolNode v) = v"
| "node_text (Add a b) = ''('' @ node_text a @ '' + '' @ node_text b @ '')''"
| "node_text (Subtract a b) = ''('' @ node_text a @ '' - '' @ node_text b @ '')''"
| "node_text (Multiply a b) = ''('' @ node_text a @ '' * '' @ node_text b @ '')''"
| "node_text (Divide a b) = ''('' @ node_text a @ '' / '' @ node_text b @ '')''"
| "node_text (Pow a n) = node_text a @ '' ^ '' @ show_nat n"
| "node_text (UnaryMinus a) = ''-'' @ node_text a"
| "node_text (NthRoot a) = ''nthRoot('' @ node_text a @ '')''"

definition mini :: "node host" where
  "mini = \<lparr>
     math_parse = mini_parse,
     math_derivative = (\<lambda>f v. Inr (diff f v)),
     node_evaluate = mini_evaluate,
     node_toString = node_text,
     number_toString = mini_toString,
     number_toFixed = mini_toFixed,
     parseFloat = mini_parseFloat,
     plotly_newPlot = (\<lambda>container traces layout. None) \<rparr>"

text \<open>The state of the page as it loads (lines 2 to 16), and a page with its inputs.\<close>

definition AppState :: "node appstate" where
  "AppState = \<lparr>
     currentFunction = ''x^2 + y^2'',
     app_x0 = Fin 1,
     app_y0 = Fin 2,
     isDarkMode = False,
     plotVisibility = \<lparr> vis_surface = True, vis_tangentPlane = True, vis_gradient = True,
                        vis_contour = True, vis_vectors = True \<rparr>,
     cachedPlots = Map.empty,
     isLoading = False \<rparr>"

definition page :: "string \<Rightarrow> string \<Rightarrow> string \<Rightarrow> node world" where
  "page f a b = \<lparr> app = AppState, func_value = f, x0_value = a, y0_value = b, events = [] \<rparr>"

text \<open>All five flags switched off.\<close>

definition all_hidden :: visibility where
  "all_hidden = \<lparr> vis_surface = False, vis_tangentPlane = False, vis_gradient = False,
                  vis_contour = False, vis_vectors = False \<rparr>"


section \<open>Runs with a random number generator\<close>

text \<open>
  math.js has functions that draw random numbers (\<open>random\<close>, \<open>randomInt\<close>, \<open>pickRandom\<close>):
  the evaluation of an expression that calls one reads and advances the state of a
  generator, so it is not a function of \<open>x\<close> and \<open>y\<close> alone. Where that matters the
  evaluator is a step on a state \<open>'r\<close>, and the two generators thread the state through
  their evaluations in the order in which the source makes them. \<open>math.parse\<close> and
  \<open>math.derivative\<close> draw nothing.
\<close>

type_synonym ('a, 'r) run = "'r \<Rightarrow> (js_error + 'a) \<times> 'r"

definition lift_run :: "js_error + 'a \<Rightarrow> ('a, 'r) run" where
  "lift_run r st = (r, st)"

definition bind_run :: "('a, 'r) run \<Rightarrow> ('a \<Rightarrow> ('b, 'r) run) \<Rightarrow> ('b, 'r) run" where
  "bind_run m k st = (case m st of (Inl e, st') \<Rightarrow> (Inl e, st') | (Inr v, st') \<Rightarrow> k v st')"

fun mapM_run :: "('a \<Rightarrow> ('b, 'r) run) \<Rightarrow> 'a list \<Rightarrow> ('b list, 'r) run" where
  "mapM_run f [] st = (Inr [], st)"
| "mapM_run f (x # xs) st =
     (case f x st of
        (Inl e, st') \<Rightarrow> (Inl e, st')
      | (Inr v, st') \<Rightarrow>
          (case mapM_run f xs st' of
             (Inl e, st'') \<Rightarrow> (Inl e, st'')
           | (Inr vs, st'') \<Rightarrow> (Inr (v # vs), st'')))"

text \<open>\<open>Utils.validateExpression\<close>, \<open>generate3DPlotData\<close> and \<open>generate2DPlotData\<close> once more.\<close>

definition validateExpression_run ::
  "'n host \<Rightarrow> ('n \<Rightarrow> jsnum \<Rightarrow> jsnum \<Rightarrow> (jsnum, 'r) run) \<Rightarrow> string \<Rightarrow> 'r \<Rightarrow> 'n validation \<times> 'r" where
  "validateExpression_run h ev expr st =
     (case math_parse h expr of
        Inl e \<Rightarrow> (Invalid (message e), st)
      | Inr parsed \<Rightarrow>
          (case ev parsed (Fin 1) (Fin 1) st of
             (Inl e, st') \<Rightarrow> (Invalid (message e), st')
           | (Inr _, st') \<Rightarrow> (Valid parsed, st')))"

definition generate3D_try_run ::
  "'n host \<Rightarrow> ('n \<Rightarrow> jsnum \<Rightarrow> jsnum \<Rightarrow> (jsnum, 'r) run) \<Rightarrow> 'n appstate \<Rightarrow> string \<Rightarrow>
   jsnum \<Rightarrow> jsnum \<Rightarrow> ('n plot3d, 'r) run" where
  "generate3D_try_run h ev s expr x0 y0 =
     bind_run (lift_run (math_parse h expr)) (\<lambda>f.
     bind_run (lift_run (math_derivative h f ''x'')) (\<lambda>fx.
     bind_run (lift_run (math_derivative h f ''y'')) (\<lambda>fy.
     let range = math_range (- 5) 5 (1 / 4);
         xVals = range;
         yVals = range
     in
     bind_run (mapM_run (\<lambda>x. mapM_run (\<lambda>y. ev f x y) yVals) xVals) (\<lambda>zVals.
     bind_run (ev fx x0 y0) (\<lambda>fx0.
     bind_run (ev fy x0 y0) (\<lambda>fy0.
     bind_run (ev f x0 y0) (\<lambda>f0.
     let tangentZ = map (\<lambda>x. map (\<lambda>y. tangent f0 fx0 fy0 x0 y0 x y) yVals) xVals
     in lift_run (Inr (plot3d_object h s x0 y0 xVals yVals zVals tangentZ fx0 fy0 f0 fx fy)))))))))"

definition generate3DPlotData_run ::
  "'n host \<Rightarrow> ('n \<Rightarrow> jsnum \<Rightarrow> jsnum \<Rightarrow> (jsnum, 'r) run) \<Rightarrow> 'n appstate \<Rightarrow> string \<Rightarrow>
   jsnum \<Rightarrow> jsnum \<Rightarrow> ('n plot3d, 'r) run" where
  "generate3DPlotData_run h ev s expr x0 y0 st =
     (case generate3D_try_run h ev s expr x0 y0 st of
        (Inl e, st') \<Rightarrow> (Inl (Error (''Error generating 3D plot: '' @ message e)), st')
      | (Inr d, st') \<Rightarrow> (Inr d, st'))"

definition vector_at_run ::
  "('n \<Rightarrow> jsnum \<Rightarrow> jsnum \<Rightarrow> (jsnum, 'r) run) \<Rightarrow> 'n appstate \<Rightarrow> 'n \<Rightarrow> 'n \<Rightarrow>
   jsnum \<Rightarrow> jsnum \<Rightarrow> (trace, 'r) run" where
  "vector_at_run ev s fx fy x y =
     bind_run (ev fx x y) (\<lambda>gx.
     bind_run (ev fy x y) (\<lambda>gy.
     lift_run (Inr \<lparr>
       tr_x = [x, jadd x (jmul (Fin (2 / 10)) gx)],
       tr_y = [y, jadd y (jmul (Fin (2 / 10)) gy)],
       tr_z = NoZ,
       tr_type = ''scatter'', tr_mode = Some ''lines'', tr_name = None,
       tr_style = [(''line'', Obj [(''color'', Str ''#1e293b''), (''width'', Num (Fin 1))]),
                   (''showlegend'', Bool False)],
       tr_visible = vis_vectors (plotVisibility s) \<rparr>)))"

definition generate2D_try_run ::
  "'n host \<Rightarrow> ('n \<Rightarrow> jsnum \<Rightarrow> jsnum \<Rightarrow> (jsnum, 'r) run) \<Rightarrow> 'n appstate \<Rightarrow> string \<Rightarrow>
   jsnum \<Rightarrow> jsnum \<Rightarrow> (plot2d, 'r) run" where
  "generate2D_try_run h ev s expr x0 y0 =
     bind_run (lift_run (math_parse h expr)) (\<lambda>f.
     bind_run (lift_run (math_derivative h f ''x'')) (\<lambda>fx.
     bind_run (lift_run (math_derivative h f ''y'')) (\<lambda>fy.
     let gridStep = 1 / 2;
         xs = math_range (- 5) 5 gridStep;
         ys = math_range (- 5) 5 gridStep
     in
     bind_run (mapM_run (\<lambda>x. mapM_run (\<lambda>y. ev f x y) ys) xs) (\<lambda>contourZ.
     bind_run (mapM_run (\<lambda>x. mapM_run (\<lambda>y. vector_at_run ev s fx fy x y) ys) xs) (\<lambda>rows.
     lift_run (Inr \<lparr> p2_contour = contour_object s xs ys contourZ,
                      p2_vectors = concat rows \<rparr>))))))"

definition generate2DPlotData_run ::
  "'n host \<Rightarrow> ('n \<Rightarrow> jsnum \<Rightarrow> jsnum \<Rightarrow> (jsnum, 'r) run) \<Rightarrow> 'n appstate \<Rightarrow> string \<Rightarrow>
   jsnum \<Rightarrow> jsnum \<Rightarrow> (plot2d, 'r) run" where
  "generate2DPlotData_run h ev s expr x0 y0 st =
     (case generate2D_try_run h ev s expr x0 y0 st of
        (Inl e, st') \<Rightarrow> (Inl (Error (''Error generating 2D plot: '' @ message e)), st')
      | (Inr d, st') \<Rightarrow> (Inr d, st'))"

text \<open>
  A step answers \<open>r\<close> when its result is \<open>r\<close> from every state; the evaluation of a node is
  free of the state when its result at each point is the same from every state.
\<close>

definition answers :: "('r \<Rightarrow> 'a \<times> 'r) \<Rightarrow> 'a \<Rightarrow> bool" where
  "answers m r = (\<forall>st. fst (m st) = r)"

definition state_free :: "('n \<Rightarrow> jsnum \<Rightarrow> jsnum \<Rightarrow> (jsnum, 'r) run) \<Rightarrow> 'n \<Rightarrow> bool" where
  "state_free ev n = (\<forall>x y st st'. fst (ev n x y st) = fst (ev n x y st'))"

text \<open>
  An instance with a random function: the generator's state is the sequence of the numbers
  it will return, and a node is an expression of the first instance or such an expression
  plus \<open>random(1)\<close>, which math.js differentiates as a constant.
\<close>

type_synonym draws = "nat \<Rightarrow> real"

definition shift :: "nat \<Rightarrow> draws \<Rightarrow> draws" where
  "shift k st = (\<lambda>n. st (n + k))"

datatype rnode = Node node | PlusRandom node

fun rnd_evaluate :: "rnode \<Rightarrow> jsnum \<Rightarrow> jsnum \<Rightarrow> (jsnum, draws) run" where
  "rnd_evaluate (Node f) x y st = (mini_evaluate f x y, st)"
| "rnd_evaluate (PlusRandom f) x y st =
     (case mini_evaluate f x y of
        Inl e \<Rightarrow> (Inl e, st)
      | Inr v \<Rightarrow> (Inr (jadd v (Fin (st 0))), shift 1 st))"

fun rnd_derivative :: "rnode \<Rightarrow> string \<Rightarrow> rnode" where
  "rnd_derivative (Node f) v = Node (diff f v)"
| "rnd_derivative (PlusRandom f) v = Node (Add (diff f v) (ConstantNode 0))"

definition rnd_parse :: "string \<Rightarrow> js_error + rnode" where
  "rnd_parse s =
     (if s = ''x + random(1)'' then Inr (PlusRandom (SymbolNode ''x''))
      else map_sum id Node (mini_parse s))"

fun rnode_text :: "rnode \<Rightarrow> string" where
  "rnode_text (Node f) = node_text f"
| "rnode_text (PlusRandom f) = node_text f @ '' + random(1)''"

text \<open>
  The host of the instance. The runs do not read its field \<open>node_evaluate\<close>, which
  evaluates with every draw \<open>0\<close>.
\<close>

definition rnd_host :: "rnode host" where
  "rnd_host = \<lparr>
     math_parse = rnd_parse,
     math_derivative = (\<lambda>f v. Inr (rnd_derivative f v)),
     node_evaluate = (\<lambda>f x y. fst (rnd_evaluate f x y (\<lambda>n. 0))),
     node_toString = rnode_text,
     number_toString = mini_toString,
     number_toFixed = mini_toFixed,
     parseFloat = mini_parseFloat,
     plotly_newPlot = (\<lambda>container traces layout. None) \<rparr>"

text \<open>A generator whose draws are \<open>1/2, 1/3, 1/4, ...\<close>, and the state as the page loads.\<close>

definition draws0 :: draws where
  "draws0 n = 1 / (real n + 2)"

definition AppState_rnd :: "rnode appstate" where
  "AppState_rnd = \<lparr>
     currentFunction = ''x^2 + y^2'',
     app_x0 = Fin 1,
     app_y0 = Fin 2,
     isDarkMode = False,
     plotVisibility = \<lparr> vis_surface = True, vis_tangentPlane = True, vis_gradient = True,
                        vis_contour = True, vis_vectors = True \<rparr>,
     cachedPlots = Map.empty,
     isLoading = False \<rparr>"

section \<open>Sequencing, ranges and maps that may throw\<close>

lemma bind_err_Inr [simp]: "bind_err (Inr v) k = k v"
  by (simp add: bind_err_def)

lemma bind_err_Inl [simp]: "bind_err (Inl e) k = Inl e"
  by (simp add: bind_err_def)

lemma bind_err_eq_Inr:
  "bind_err r k = Inr y \<longleftrightarrow> (\<exists>v. r = Inr v \<and> k v = Inr y)"
  by (cases r) simp_all

lemma mapM_Inr_iff:
  "mapM f xs = Inr ys \<longleftrightarrow>
     length ys = length xs \<and> (\<forall>i<length xs. f (xs ! i) = Inr (ys ! i))"
proof (induction xs arbitrary: ys)
  case Nil
  then show ?case by auto
next
  case (Cons x xs)
  show ?case
  proof (cases ys)
    case Nil
    then show ?thesis by (auto split: sum.splits)
  next
    case (Cons y ys')
    then show ?thesis
      using Cons.IH [of ys']
      by (auto simp: nth_Cons less_Suc_eq_0_disj split: sum.splits nat.splits)
  qed
qed

lemma mapM_Inl_iff:
  "mapM f xs = Inl e \<longleftrightarrow>
     (\<exists>i<length xs. f (xs ! i) = Inl e \<and> (\<forall>k<i. \<exists>v. f (xs ! k) = Inr v))"
proof (induction xs)
  case Nil
  then show ?case by simp
next
  case (Cons x xs)
  show ?case
  proof (cases "f x")
    case (Inl e')
    show ?thesis
    proof
      assume "mapM f (x # xs) = Inl e"
      with Inl have "e' = e" by simp
      with Inl show "\<exists>i<length (x # xs). f ((x # xs) ! i) = Inl e \<and> (\<forall>k<i. \<exists>v. f ((x # xs) ! k) = Inr v)"
        by (intro exI [of _ 0]) simp
    next
      assume "\<exists>i<length (x # xs). f ((x # xs) ! i) = Inl e \<and> (\<forall>k<i. \<exists>v. f ((x # xs) ! k) = Inr v)"
      then obtain i where i: "f ((x # xs) ! i) = Inl e" "\<forall>k<i. \<exists>v. f ((x # xs) ! k) = Inr v"
        by blast
      have "i = 0"
      proof (rule ccontr)
        assume "i \<noteq> 0"
        then have "\<exists>v. f ((x # xs) ! 0) = Inr v" using i(2) by blast
        with Inl show False by simp
      qed
      with i Inl show "mapM f (x # xs) = Inl e" by simp
    qed
  next
    case (Inr v)
    have "mapM f (x # xs) = Inl e \<longleftrightarrow> mapM f xs = Inl e"
      using Inr by (simp split: sum.splits)
    also have "\<dots> \<longleftrightarrow> (\<exists>i<length xs. f (xs ! i) = Inl e \<and> (\<forall>k<i. \<exists>v. f (xs ! k) = Inr v))"
      by (rule Cons.IH)
    also have "\<dots> \<longleftrightarrow> (\<exists>i<length (x # xs). f ((x # xs) ! i) = Inl e \<and> (\<forall>k<i. \<exists>v. f ((x # xs) ! k) = Inr v))"
    proof
      assume "\<exists>i<length xs. f (xs ! i) = Inl e \<and> (\<forall>k<i. \<exists>v. f (xs ! k) = Inr v)"
      then obtain i where i: "i < length xs" "f (xs ! i) = Inl e" "\<forall>k<i. \<exists>v. f (xs ! k) = Inr v"
        by blast
      have "\<forall>k<Suc i. \<exists>v. f ((x # xs) ! k) = Inr v"
        using i(3) Inr by (auto simp: nth_Cons split: nat.splits)
      with i(1,2) show "\<exists>i<length (x # xs). f ((x # xs) ! i) = Inl e \<and> (\<forall>k<i. \<exists>v. f ((x # xs) ! k) = Inr v)"
        by (intro exI [of _ "Suc i"]) simp
    next
      assume "\<exists>i<length (x # xs). f ((x # xs) ! i) = Inl e \<and> (\<forall>k<i. \<exists>v. f ((x # xs) ! k) = Inr v)"
      then obtain i where i: "i < length (x # xs)" "f ((x # xs) ! i) = Inl e"
        "\<forall>k<i. \<exists>v. f ((x # xs) ! k) = Inr v" by blast
      from i(2) Inr obtain j where j: "i = Suc j" by (cases i) auto
      have "\<forall>k<j. \<exists>v. f (xs ! k) = Inr v"
      proof (intro allI impI)
        fix k assume "k < j"
        then have "Suc k < i" using j by simp
        with i(3) have "\<exists>v. f ((x # xs) ! Suc k) = Inr v" by blast
        then show "\<exists>v. f (xs ! k) = Inr v" by simp
      qed
      with i(1,2) j show "\<exists>i<length xs. f (xs ! i) = Inl e \<and> (\<forall>k<i. \<exists>v. f (xs ! k) = Inr v)"
        by (intro exI [of _ j]) simp
    qed
    finally show ?thesis .
  qed
qed

lemma mapM_pure: "mapM (\<lambda>x. Inr (g x)) xs = Inr (map g xs)"
  by (induction xs) simp_all

lemma mapM_total:
  assumes "\<And>x. f x = Inr (g x)"
  shows "mapM f xs = Inr (map g xs)"
proof -
  have "f = (\<lambda>x. Inr (g x))" using assms by (intro ext) simp
  then show ?thesis by (simp add: mapM_pure)
qed

lemma mapM_grid_total:
  assumes "\<And>x y. f x y = Inr (g x y)"
  shows "mapM (\<lambda>x. mapM (\<lambda>y. f x y) ys) xs = Inr (map (\<lambda>x. map (g x) ys) xs)"
proof -
  have row: "mapM (\<lambda>y. f x y) ys = Inr (map (g x) ys)" for x
    using assms by (intro mapM_total) simp
  show ?thesis by (simp add: row mapM_pure)
qed

lemma length_range3 [simp]: "length (math_range (- 5) 5 (1 / 4)) = 40"
  by (simp add: math_range_def)

lemma nth_range3: "i < 40 \<Longrightarrow> math_range (- 5) 5 (1 / 4) ! i = grid3 i"
  by (simp add: math_range_def grid3_def)

lemma length_range2 [simp]: "length (math_range (- 5) 5 (1 / 2)) = 20"
  by (simp add: math_range_def)

section \<open>The 3D plot data\<close>

lemma generate3DPlotData_Inr:
  "generate3DPlotData h s expr x0 y0 = Inr d \<longleftrightarrow> generate3D_try h s expr x0 y0 = Inr d"
  by (simp add: generate3DPlotData_def split: sum.splits)

lemma generate2DPlotData_Inr:
  "generate2DPlotData h s expr x0 y0 = Inr d \<longleftrightarrow> generate2D_try h s expr x0 y0 = Inr d"
  by (simp add: generate2DPlotData_def split: sum.splits)

lemma generate3D_try_Inr:
  "generate3D_try h s expr x0 y0 = Inr d \<longleftrightarrow>
     (\<exists>f fx fy zVals fx0 fy0 f0.
        math_parse h expr = Inr f \<and>
        math_derivative h f ''x'' = Inr fx \<and>
        math_derivative h f ''y'' = Inr fy \<and>
        mapM (\<lambda>x. mapM (\<lambda>y. node_evaluate h f x y) (math_range (- 5) 5 (1 / 4)))
          (math_range (- 5) 5 (1 / 4)) = Inr zVals \<and>
        node_evaluate h fx x0 y0 = Inr fx0 \<and>
        node_evaluate h fy x0 y0 = Inr fy0 \<and>
        node_evaluate h f x0 y0 = Inr f0 \<and>
        d = plot3d_object h s x0 y0 (math_range (- 5) 5 (1 / 4)) (math_range (- 5) 5 (1 / 4)) zVals
              (map (\<lambda>x. map (\<lambda>y. tangent f0 fx0 fy0 x0 y0 x y) (math_range (- 5) 5 (1 / 4)))
                 (math_range (- 5) 5 (1 / 4)))
              fx0 fy0 f0 fx fy)"
  unfolding generate3D_try_def Let_def bind_err_eq_Inr by blast

lemma generate3DPlotData_total:
  assumes "math_parse h expr = Inr f"
    and "math_derivative h f ''x'' = Inr fx"
    and "math_derivative h f ''y'' = Inr fy"
    and "\<And>x y. node_evaluate h f x y = Inr (g x y)"
    and "node_evaluate h fx x0 y0 = Inr fx0"
    and "node_evaluate h fy x0 y0 = Inr fy0"
  shows "generate3DPlotData h s expr x0 y0 =
     Inr (plot3d_object h s x0 y0 (math_range (- 5) 5 (1 / 4)) (math_range (- 5) 5 (1 / 4))
            (map (\<lambda>x. map (g x) (math_range (- 5) 5 (1 / 4))) (math_range (- 5) 5 (1 / 4)))
            (map (\<lambda>x. map (\<lambda>y. tangent (g x0 y0) fx0 fy0 x0 y0 x y) (math_range (- 5) 5 (1 / 4)))
               (math_range (- 5) 5 (1 / 4)))
            fx0 fy0 (g x0 y0) fx fy)"
proof -
  have "mapM (\<lambda>x. mapM (\<lambda>y. node_evaluate h f x y) (math_range (- 5) 5 (1 / 4)))
          (math_range (- 5) 5 (1 / 4)) =
        Inr (map (\<lambda>x. map (g x) (math_range (- 5) 5 (1 / 4))) (math_range (- 5) 5 (1 / 4)))"
    using assms(4) by (rule mapM_grid_total)
  then show ?thesis
    unfolding generate3DPlotData_Inr generate3D_try_Inr using assms by blast
qed

lemma grid_at_map:
  assumes "i < length xs" and "j < length ys"
  shows "grid_at (ZGrid (map (\<lambda>x. map (g x) ys) xs)) i j = Some (g (xs ! i) (ys ! j))"
  using assms by (simp add: grid_at_def)

lemma tangent_center:
  assumes "is_finite f0" and "is_finite fx0" and "is_finite fy0"
    and "is_finite x0" and "is_finite y0"
  shows "tangent f0 fx0 fy0 x0 y0 x0 y0 = f0"
proof -
  obtain a b c u v where "f0 = Fin a" "fx0 = Fin b" "fy0 = Fin c" "x0 = Fin u" "y0 = Fin v"
    using assms by (cases f0; cases fx0; cases fy0; cases x0; cases y0) simp_all
  then show ?thesis by (simp add: tangent_def jsub_def)
qed

lemma p3_tangentPlane_object [simp]:
  "tr_z (p3_tangentPlane (plot3d_object h s x0 y0 xs ys zs ts fx0 fy0 f0 fx fy)) = ZGrid ts"
  "tr_x (p3_tangentPlane (plot3d_object h s x0 y0 xs ys zs ts fx0 fy0 f0 fx fy)) = xs"
  "tr_y (p3_tangentPlane (plot3d_object h s x0 y0 xs ys zs ts fx0 fy0 f0 fx fy)) = ys"
  by (simp_all add: plot3d_object_def)

lemma p3_surface_object [simp]:
  "tr_z (p3_surface (plot3d_object h s x0 y0 xs ys zs ts fx0 fy0 f0 fx fy)) = ZGrid zs"
  "tr_x (p3_surface (plot3d_object h s x0 y0 xs ys zs ts fx0 fy0 f0 fx fy)) = xs"
  "tr_y (p3_surface (plot3d_object h s x0 y0 xs ys zs ts fx0 fy0 f0 fx fy)) = ys"
  by (simp_all add: plot3d_object_def)

lemma p3_derivatives_object [simp]:
  "p3_derivatives (plot3d_object h s x0 y0 xs ys zs ts fx0 fy0 f0 fx fy) =
     \<lparr> d_fx0 = fx0, d_fy0 = fy0, d_f0 = f0, d_fx = fx, d_fy = fy \<rparr>"
  by (simp add: plot3d_object_def)

text \<open>
  Claim C1, as the code has it. When \<open>generate3DPlotData\<close> returns, the height of the
  tangent plane at every grid point \<open>(grid3 i, grid3 j)\<close> is
  \<open>f0 + fx0 * (x - x0) + fy0 * (y - y0)\<close>, where \<open>f0\<close>, \<open>fx0\<close> and \<open>fy0\<close> are the values
  of the parsed expression and of its two derivatives at \<open>(x0, y0)\<close>. At a grid point that
  is the centre itself the height is \<open>f0\<close> whenever \<open>f0\<close>, \<open>fx0\<close> and \<open>fy0\<close> are finite.
\<close>

theorem tangent_plane_heights:
  assumes "generate3DPlotData h s expr x0 y0 = Inr d"
  shows "\<exists>f fx fy f0 fx0 fy0.
     math_parse h expr = Inr f \<and>
     math_derivative h f ''x'' = Inr fx \<and>
     math_derivative h f ''y'' = Inr fy \<and>
     node_evaluate h f x0 y0 = Inr f0 \<and>
     node_evaluate h fx x0 y0 = Inr fx0 \<and>
     node_evaluate h fy x0 y0 = Inr fy0 \<and>
     tr_x (p3_tangentPlane d) = map grid3 [0..<40] \<and>
     tr_y (p3_tangentPlane d) = map grid3 [0..<40] \<and>
     (\<forall>i<40. \<forall>j<40.
        grid_at (tr_z (p3_tangentPlane d)) i j =
          Some (jadd (jadd f0 (jmul fx0 (jsub (grid3 i) x0))) (jmul fy0 (jsub (grid3 j) y0)))) \<and>
     (\<forall>i<40. \<forall>j<40.
        grid3 i = x0 \<and> grid3 j = y0 \<and> is_finite f0 \<and> is_finite fx0 \<and> is_finite fy0 \<longrightarrow>
        grid_at (tr_z (p3_tangentPlane d)) i j = Some f0)"
proof -
  let ?R = "math_range (- 5) 5 (1 / 4)"
  from assms obtain f fx fy zVals fx0 fy0 f0 where
    lib: "math_parse h expr = Inr f" "math_derivative h f ''x'' = Inr fx"
      "math_derivative h f ''y'' = Inr fy" "node_evaluate h f x0 y0 = Inr f0"
      "node_evaluate h fx x0 y0 = Inr fx0" "node_evaluate h fy x0 y0 = Inr fy0"
    and d: "d = plot3d_object h s x0 y0 ?R ?R zVals
              (map (\<lambda>x. map (\<lambda>y. tangent f0 fx0 fy0 x0 y0 x y) ?R) ?R) fx0 fy0 f0 fx fy"
    unfolding generate3DPlotData_Inr generate3D_try_Inr by blast
  have R: "?R = map grid3 [0..<40]"
    by (intro nth_equalityI) (simp_all add: nth_range3)
  have heights: "grid_at (tr_z (p3_tangentPlane d)) i j =
      Some (tangent f0 fx0 fy0 x0 y0 (grid3 i) (grid3 j))" if "i < 40" "j < 40" for i j
    using that by (simp add: d grid_at_map nth_range3)
  have formula: "\<forall>i<40. \<forall>j<40.
        grid_at (tr_z (p3_tangentPlane d)) i j =
          Some (jadd (jadd f0 (jmul fx0 (jsub (grid3 i) x0))) (jmul fy0 (jsub (grid3 j) y0)))"
    using heights by (simp add: tangent_def)
  have center: "\<forall>i<40. \<forall>j<40.
        grid3 i = x0 \<and> grid3 j = y0 \<and> is_finite f0 \<and> is_finite fx0 \<and> is_finite fy0 \<longrightarrow>
        grid_at (tr_z (p3_tangentPlane d)) i j = Some f0"
  proof (intro allI impI)
    fix i j :: nat
    assume ij: "i < 40" "j < 40"
      and c: "grid3 i = x0 \<and> grid3 j = y0 \<and> is_finite f0 \<and> is_finite fx0 \<and> is_finite fy0"
    then have "is_finite x0" "is_finite y0" by (auto simp: grid3_def)
    with c have "tangent f0 fx0 fy0 x0 y0 (grid3 i) (grid3 j) = f0"
      by (simp add: tangent_center)
    with heights [OF ij] show "grid_at (tr_z (p3_tangentPlane d)) i j = Some f0" by simp
  qed
  have "tr_x (p3_tangentPlane d) = map grid3 [0..<40]" "tr_y (p3_tangentPlane d) = map grid3 [0..<40]"
    using R by (simp_all add: d)
  with lib formula center show ?thesis by blast
qed

section \<open>The instance at work\<close>

lemma mini_fields [simp]:
  "math_parse mini = mini_parse"
  "math_derivative mini = (\<lambda>f v. Inr (diff f v))"
  "node_evaluate mini = mini_evaluate"
  "node_toString mini = node_text"
  "number_toString mini = mini_toString"
  "number_toFixed mini = mini_toFixed"
  "parseFloat mini = mini_parseFloat"
  "plotly_newPlot mini = (\<lambda>container traces layout. None)"
  by (simp_all add: mini_def)

lemma jpow_2 [simp]: "jpow v 2 = jmul v (jmul v (Fin 1))"
  by (simp add: numeral_2_eq_2)

lemma grid3_values: "grid3 0 = Fin (- 5)" "grid3 20 = Fin 0" "grid3 24 = Fin 1" "grid3 28 = Fin 2"
  by (simp_all add: grid3_def)

lemma tangent_at_Inr [simp]: "tangent_at (Inr d) i j = grid_at (tr_z (p3_tangentPlane d)) i j"
  by (simp add: tangent_at_def)

lemma surface_at_Inr [simp]: "surface_at (Inr d) i j = grid_at (tr_z (p3_surface d)) i j"
  by (simp add: surface_at_def)

lemma center_value_Inr [simp]: "center_value (Inr d) = Some (d_f0 (p3_derivatives d))"
  by (simp add: center_value_def)

lemma mini_paraboloid:
  "generate3DPlotData mini s ''x^2 + y^2'' (Fin 1) (Fin 2) =
     Inr (plot3d_object mini s (Fin 1) (Fin 2) (math_range (- 5) 5 (1 / 4)) (math_range (- 5) 5 (1 / 4))
            (map (\<lambda>x. map (\<lambda>y. jadd (jpow x 2) (jpow y 2)) (math_range (- 5) 5 (1 / 4)))
               (math_range (- 5) 5 (1 / 4)))
            (map (\<lambda>x. map (\<lambda>y. tangent (Fin 5) (Fin 2) (Fin 4) (Fin 1) (Fin 2) x y)
                         (math_range (- 5) 5 (1 / 4)))
               (math_range (- 5) 5 (1 / 4)))
            (Fin 2) (Fin 4) (Fin 5)
            (diff (Add (Pow (SymbolNode ''x'') 2) (Pow (SymbolNode ''y'') 2)) ''x'')
            (diff (Add (Pow (SymbolNode ''x'') 2) (Pow (SymbolNode ''y'') 2)) ''y''))"
proof -
  have "generate3DPlotData mini s ''x^2 + y^2'' (Fin 1) (Fin 2) =
     Inr (plot3d_object mini s (Fin 1) (Fin 2) (math_range (- 5) 5 (1 / 4)) (math_range (- 5) 5 (1 / 4))
            (map (\<lambda>x. map (\<lambda>y. jadd (jpow x 2) (jpow y 2)) (math_range (- 5) 5 (1 / 4)))
               (math_range (- 5) 5 (1 / 4)))
            (map (\<lambda>x. map (\<lambda>y. tangent (jadd (jpow (Fin 1) 2) (jpow (Fin 2) 2)) (Fin 2) (Fin 4) (Fin 1) (Fin 2) x y)
                         (math_range (- 5) 5 (1 / 4)))
               (math_range (- 5) 5 (1 / 4)))
            (Fin 2) (Fin 4) (jadd (jpow (Fin 1) 2) (jpow (Fin 2) 2))
            (diff (Add (Pow (SymbolNode ''x'') 2) (Pow (SymbolNode ''y'') 2)) ''x'')
            (diff (Add (Pow (SymbolNode ''x'') 2) (Pow (SymbolNode ''y'') 2)) ''y''))"
    by (rule generate3DPlotData_total [where f = "Add (Pow (SymbolNode ''x'') 2) (Pow (SymbolNode ''y'') 2)"])
       (simp_all add: mini_parse_def)
  then show ?thesis by simp
qed

theorem tangent_plane_heights_witness:
  "grid3 24 = Fin 1 \<and> grid3 28 = Fin 2 \<and>
   center_value (generate3DPlotData mini AppState ''x^2 + y^2'' (Fin 1) (Fin 2)) = Some (Fin 5) \<and>
   tangent_at (generate3DPlotData mini AppState ''x^2 + y^2'' (Fin 1) (Fin 2)) 24 28 = Some (Fin 5) \<and>
   tangent_at (generate3DPlotData mini AppState ''x^2 + y^2'' (Fin 1) (Fin 2)) 0 0 = Some (Fin (- 35))"
proof -
  let ?g = "generate3DPlotData mini AppState ''x^2 + y^2'' (Fin 1) (Fin 2)"
  obtain d where d: "?g = Inr d" using mini_paraboloid by blast
  from tangent_plane_heights [OF d] obtain f fx fy f0 fx0 fy0 where
    f: "math_parse mini ''x^2 + y^2'' = Inr f"
    and fx: "math_derivative mini f ''x'' = Inr fx"
    and fy: "math_derivative mini f ''y'' = Inr fy"
    and f0: "node_evaluate mini f (Fin 1) (Fin 2) = Inr f0"
    and fx0: "node_evaluate mini fx (Fin 1) (Fin 2) = Inr fx0"
    and fy0: "node_evaluate mini fy (Fin 1) (Fin 2) = Inr fy0"
    and formula: "\<forall>i<40. \<forall>j<40.
        grid_at (tr_z (p3_tangentPlane d)) i j =
          Some (jadd (jadd f0 (jmul fx0 (jsub (grid3 i) (Fin 1)))) (jmul fy0 (jsub (grid3 j) (Fin 2))))"
    and center: "\<forall>i<40. \<forall>j<40.
        grid3 i = Fin 1 \<and> grid3 j = Fin 2 \<and> is_finite f0 \<and> is_finite fx0 \<and> is_finite fy0 \<longrightarrow>
        grid_at (tr_z (p3_tangentPlane d)) i j = Some f0"
    by blast
  from f have f_eq: "f = Add (Pow (SymbolNode ''x'') 2) (Pow (SymbolNode ''y'') 2)"
    by (simp add: mini_parse_def)
  from f0 have f0_eq: "f0 = Fin 5" by (simp add: f_eq)
  from fx fx0 have fx0_eq: "fx0 = Fin 2" by (auto simp: f_eq)
  from fy fy0 have fy0_eq: "fy0 = Fin 4" by (auto simp: f_eq)
  have c: "grid_at (tr_z (p3_tangentPlane d)) 24 28 = Some (Fin 5)"
    using center [rule_format, of 24 28] by (simp add: grid3_values f0_eq fx0_eq fy0_eq)
  have o: "grid_at (tr_z (p3_tangentPlane d)) 0 0 = Some (Fin (- 35))"
    using formula [rule_format, of 0 0] by (simp add: grid3_values f0_eq fx0_eq fy0_eq jsub_def)
  have v: "center_value ?g = Some (Fin 5)"
    by (simp add: mini_paraboloid)
  show ?thesis using c o v by (simp add: d grid3_values)
qed

lemma mini_reciprocal:
  "generate3DPlotData mini s ''1/x'' x0 y0 =
     Inr (plot3d_object mini s x0 y0 (math_range (- 5) 5 (1 / 4)) (math_range (- 5) 5 (1 / 4))
            (map (\<lambda>x. map (\<lambda>y. jdiv (Fin 1) x) (math_range (- 5) 5 (1 / 4)))
               (math_range (- 5) 5 (1 / 4)))
            (map (\<lambda>x. map (\<lambda>y. tangent (jdiv (Fin 1) x0)
                              (jmul (jneg (Fin 1)) (jdiv (Fin 1) (jpow x0 2))) (Fin 0) x0 y0 x y)
                         (math_range (- 5) 5 (1 / 4)))
               (math_range (- 5) 5 (1 / 4)))
            (jmul (jneg (Fin 1)) (jdiv (Fin 1) (jpow x0 2))) (Fin 0) (jdiv (Fin 1) x0)
            (diff (Divide (ConstantNode 1) (SymbolNode ''x'')) ''x'')
            (diff (Divide (ConstantNode 1) (SymbolNode ''x'')) ''y''))"
  by (rule generate3DPlotData_total [where f = "Divide (ConstantNode 1) (SymbolNode ''x'')"])
     (simp_all add: mini_parse_def)

text \<open>
  Without that proviso the second half of the claim fails. \<open>1/x\<close> passes validation; at
  the centre \<open>(0, 0)\<close>, a grid point, its value is \<open>Infinity\<close> and its derivative in \<open>x\<close> is
  \<open>-Infinity\<close>, so the height there is \<open>Infinity + (-Infinity) * 0 + 0 * 0 = NaN\<close>.
\<close>

theorem tangent_center_counterexample:
  "validateExpression mini ''1/x'' = Valid (Divide (ConstantNode 1) (SymbolNode ''x'')) \<and>
   grid3 20 = Fin 0 \<and>
   center_value (generate3DPlotData mini AppState ''1/x'' (Fin 0) (Fin 0)) = Some PInf \<and>
   tangent_at (generate3DPlotData mini AppState ''1/x'' (Fin 0) (Fin 0)) 20 20 = Some NaN"
  by (simp add: mini_reciprocal validateExpression_def mini_parse_def grid_at_map nth_range3
        grid3_values tangent_def jsub_def inf_times_def)

section \<open>Gradient segment and point marker\<close>

lemma p3_gradient_object [simp]:
  "p3_gradient (plot3d_object h s x0 y0 xs ys zs ts fx0 fy0 f0 fx fy) = \<lparr>
     tr_x = [x0, jadd x0 (jdiv fx0 (Fin 2))],
     tr_y = [y0, jadd y0 (jdiv fy0 (Fin 2))],
     tr_z = ZList [f0, jadd f0 (jdiv (jadd fx0 fy0) (Fin 2))],
     tr_type = ''scatter3d'', tr_mode = Some ''lines'', tr_name = Some ''Gradient'',
     tr_style = [(''line'', Obj [(''width'', Num (Fin 6)), (''color'', Str ''#ef4444'')])],
     tr_visible = vis_gradient (plotVisibility s) \<rparr>"
  by (simp add: plot3d_object_def)

lemma p3_point_object [simp]:
  "p3_point (plot3d_object h s x0 y0 xs ys zs ts fx0 fy0 f0 fx fy) = \<lparr>
     tr_x = [x0], tr_y = [y0], tr_z = ZList [f0],
     tr_type = ''scatter3d'', tr_mode = Some ''markers'',
     tr_name = Some (''('' @ formatNumber h x0 @ '', '' @ formatNumber h y0 @ '')''),
     tr_style = [(''marker'', Obj [(''size'', Num (Fin 8)), (''color'', Str ''#ef4444'')])],
     tr_visible = True \<rparr>"
  by (simp add: plot3d_object_def)

lemma visible_object [simp]:
  "tr_visible (p3_surface (plot3d_object h s x0 y0 xs ys zs ts fx0 fy0 f0 fx fy)) =
     vis_surface (plotVisibility s)"
  "tr_visible (p3_tangentPlane (plot3d_object h s x0 y0 xs ys zs ts fx0 fy0 f0 fx fy)) =
     vis_tangentPlane (plotVisibility s)"
  by (simp_all add: plot3d_object_def)

text \<open>
  Claim C9. When \<open>generate3DPlotData\<close> returns, the gradient series is the line of two
  points from \<open>(x0, y0, f0)\<close> to \<open>(x0 + fx0 / 2, y0 + fy0 / 2, f0 + (fx0 + fy0) / 2)\<close>, where
  \<open>f0\<close>, \<open>fx0\<close> and \<open>fy0\<close> are the values of the parsed expression and of its two
  derivatives at \<open>(x0, y0)\<close>.
\<close>

theorem gradient_segment:
  assumes "generate3DPlotData h s expr x0 y0 = Inr d"
  shows "\<exists>f fx fy f0 fx0 fy0.
     math_parse h expr = Inr f \<and>
     math_derivative h f ''x'' = Inr fx \<and>
     math_derivative h f ''y'' = Inr fy \<and>
     node_evaluate h f x0 y0 = Inr f0 \<and>
     node_evaluate h fx x0 y0 = Inr fx0 \<and>
     node_evaluate h fy x0 y0 = Inr fy0 \<and>
     tr_x (p3_gradient d) = [x0, jadd x0 (jdiv fx0 (Fin 2))] \<and>
     tr_y (p3_gradient d) = [y0, jadd y0 (jdiv fy0 (Fin 2))] \<and>
     tr_z (p3_gradient d) = ZList [f0, jadd f0 (jdiv (jadd fx0 fy0) (Fin 2))] \<and>
     tr_mode (p3_gradient d) = Some ''lines'' \<and>
     tr_type (p3_gradient d) = ''scatter3d''"
proof -
  from assms obtain f fx fy zVals fx0 fy0 f0 ts where
    lib: "math_parse h expr = Inr f" "math_derivative h f ''x'' = Inr fx"
      "math_derivative h f ''y'' = Inr fy" "node_evaluate h f x0 y0 = Inr f0"
      "node_evaluate h fx x0 y0 = Inr fx0" "node_evaluate h fy x0 y0 = Inr fy0"
    and d: "d = plot3d_object h s x0 y0 (math_range (- 5) 5 (1 / 4)) (math_range (- 5) 5 (1 / 4))
              zVals ts fx0 fy0 f0 fx fy"
    unfolding generate3DPlotData_Inr generate3D_try_Inr by blast
  have "tr_x (p3_gradient d) = [x0, jadd x0 (jdiv fx0 (Fin 2))]"
    "tr_y (p3_gradient d) = [y0, jadd y0 (jdiv fy0 (Fin 2))]"
    "tr_z (p3_gradient d) = ZList [f0, jadd f0 (jdiv (jadd fx0 fy0) (Fin 2))]"
    "tr_mode (p3_gradient d) = Some ''lines''"
    "tr_type (p3_gradient d) = ''scatter3d''"
    by (simp_all add: d)
  with lib show ?thesis by blast
qed

theorem gradient_segment_witness:
  "map_sum message (\<lambda>d. (tr_x (p3_gradient d), tr_y (p3_gradient d), tr_z (p3_gradient d)))
     (generate3DPlotData mini AppState ''x^2 + y^2'' (Fin 1) (Fin 2)) =
   Inr ([Fin 1, Fin 2], [Fin 2, Fin 4], ZList [Fin 5, Fin 8])"
proof -
  obtain d where d: "generate3DPlotData mini AppState ''x^2 + y^2'' (Fin 1) (Fin 2) = Inr d"
    using mini_paraboloid by blast
  from gradient_segment [OF d] obtain f fx fy f0 fx0 fy0 where
    f: "math_parse mini ''x^2 + y^2'' = Inr f"
    and fx: "math_derivative mini f ''x'' = Inr fx"
    and fy: "math_derivative mini f ''y'' = Inr fy"
    and f0: "node_evaluate mini f (Fin 1) (Fin 2) = Inr f0"
    and fx0: "node_evaluate mini fx (Fin 1) (Fin 2) = Inr fx0"
    and fy0: "node_evaluate mini fy (Fin 1) (Fin 2) = Inr fy0"
    and seg: "tr_x (p3_gradient d) = [Fin 1, jadd (Fin 1) (jdiv fx0 (Fin 2))]"
      "tr_y (p3_gradient d) = [Fin 2, jadd (Fin 2) (jdiv fy0 (Fin 2))]"
      "tr_z (p3_gradient d) = ZList [f0, jadd f0 (jdiv (jadd fx0 fy0) (Fin 2))]"
    by blast
  from f have f_eq: "f = Add (Pow (SymbolNode ''x'') 2) (Pow (SymbolNode ''y'') 2)"
    by (simp add: mini_parse_def)
  from f0 have "f0 = Fin 5" by (simp add: f_eq)
  moreover from fx fx0 have "fx0 = Fin 2" by (auto simp: f_eq)
  moreover from fy fy0 have "fy0 = Fin 4" by (auto simp: f_eq)
  ultimately show ?thesis using seg by (simp add: d)
qed

lemma generate3DPlotData_object:
  assumes "generate3DPlotData h s expr x0 y0 = Inr d"
  obtains xs ys zs ts fx0 fy0 f0 fx fy
  where "d = plot3d_object h s x0 y0 xs ys zs ts fx0 fy0 f0 fx fy"
  using assms unfolding generate3DPlotData_Inr generate3D_try_Inr by blast

text \<open>
  Claim C10. The point marker of every result of \<open>generate3DPlotData\<close> has
  \<open>visible = true\<close>, whatever the five flags are, so it is among the traces that
  \<open>render3DPlot\<close> hands to \<open>Plotly.newPlot\<close>.
\<close>

theorem point_marker_visible:
  assumes "generate3DPlotData h s expr x0 y0 = Inr d"
  shows "tr_visible (p3_point d) \<and> p3_point d \<in> set (traces3d d) \<and>
     events (snd (render3DPlot h d w)) =
       events w @ [NewPlot ''plot3d'' (traces3d d) (layout3d (isDarkMode (app w)))]"
proof -
  from assms obtain xs ys zs ts fx0 fy0 f0 fx fy
    where d: "d = plot3d_object h s x0 y0 xs ys zs ts fx0 fy0 f0 fx fy"
    by (rule generate3DPlotData_object)
  have v: "tr_visible (p3_point d)" by (simp add: d)
  then have "p3_point d \<in> set (traces3d d)" by (simp add: traces3d_def)
  moreover have "events (snd (render3DPlot h d w)) =
       events w @ [NewPlot ''plot3d'' (traces3d d) (layout3d (isDarkMode (app w)))]"
    by (simp add: render3DPlot_def Let_def emit_def)
  ultimately show ?thesis using v by simp
qed

lemma mini_saddle:
  "generate3DPlotData mini s ''x*y'' x0 y0 =
     Inr (plot3d_object mini s x0 y0 (math_range (- 5) 5 (1 / 4)) (math_range (- 5) 5 (1 / 4))
            (map (\<lambda>x. map (\<lambda>y. jmul x y) (math_range (- 5) 5 (1 / 4)))
               (math_range (- 5) 5 (1 / 4)))
            (map (\<lambda>x. map (\<lambda>y. tangent (jmul x0 y0) (jmul y0 (Fin 1)) (jmul x0 (Fin 1)) x0 y0 x y)
                         (math_range (- 5) 5 (1 / 4)))
               (math_range (- 5) 5 (1 / 4)))
            (jmul y0 (Fin 1)) (jmul x0 (Fin 1)) (jmul x0 y0)
            (diff (Multiply (SymbolNode ''x'') (SymbolNode ''y'')) ''x'')
            (diff (Multiply (SymbolNode ''x'') (SymbolNode ''y'')) ''y''))"
  by (rule generate3DPlotData_total [where f = "Multiply (SymbolNode ''x'') (SymbolNode ''y'')"])
     (simp_all add: mini_parse_def)

theorem point_marker_visible_witness:
  "map_sum message (\<lambda>d. map tr_name (traces3d d))
     (generate3DPlotData mini (AppState\<lparr>plotVisibility := all_hidden\<rparr>) ''x*y'' (Fin 0) (Fin 0)) =
   Inr [Some ''(0, 0)'']"
proof -
  let ?s = "AppState\<lparr>plotVisibility := all_hidden\<rparr>"
  obtain d where d: "generate3DPlotData mini ?s ''x*y'' (Fin 0) (Fin 0) = Inr d"
    using mini_saddle by blast
  have "tr_visible (p3_point d)"
    using point_marker_visible [OF d, where w = "page [] [] []"] by simp
  moreover have "d = plot3d_object mini ?s (Fin 0) (Fin 0) (math_range (- 5) 5 (1 / 4))
      (math_range (- 5) 5 (1 / 4))
      (map (\<lambda>x. map (\<lambda>y. jmul x y) (math_range (- 5) 5 (1 / 4))) (math_range (- 5) 5 (1 / 4)))
      (map (\<lambda>x. map (\<lambda>y. tangent (jmul (Fin 0) (Fin 0)) (jmul (Fin 0) (Fin 1)) (jmul (Fin 0) (Fin 1))
                            (Fin 0) (Fin 0) x y) (math_range (- 5) 5 (1 / 4)))
         (math_range (- 5) 5 (1 / 4)))
      (jmul (Fin 0) (Fin 1)) (jmul (Fin 0) (Fin 1)) (jmul (Fin 0) (Fin 0))
      (diff (Multiply (SymbolNode ''x'') (SymbolNode ''y'')) ''x'')
      (diff (Multiply (SymbolNode ''x'') (SymbolNode ''y'')) ''y'')"
    using d unfolding mini_saddle by simp
  ultimately show ?thesis
    unfolding d
    by (simp add: traces3d_def all_hidden_def formatNumber_def)
qed

section \<open>What the generators read of the state\<close>



lemma plot3d_object_cong:
  assumes "isDarkMode s = isDarkMode s'"
    and "vis_surface (plotVisibility s) = vis_surface (plotVisibility s')"
    and "vis_tangentPlane (plotVisibility s) = vis_tangentPlane (plotVisibility s')"
    and "vis_gradient (plotVisibility s) = vis_gradient (plotVisibility s')"
  shows "plot3d_object h s x0 y0 xs ys zs ts fx0 fy0 f0 fx fy =
         plot3d_object h s' x0 y0 xs ys zs ts fx0 fy0 f0 fx fy"
  using assms by (simp add: plot3d_object_def)

lemma generate3DPlotData_cong:
  assumes "isDarkMode s = isDarkMode s'"
    and "vis_surface (plotVisibility s) = vis_surface (plotVisibility s')"
    and "vis_tangentPlane (plotVisibility s) = vis_tangentPlane (plotVisibility s')"
    and "vis_gradient (plotVisibility s) = vis_gradient (plotVisibility s')"
  shows "generate3DPlotData h s expr x0 y0 = generate3DPlotData h s' expr x0 y0"
  unfolding generate3DPlotData_def generate3D_try_def
  by (simp only: plot3d_object_cong [OF assms])

lemma vector_at_cong:
  assumes "vis_vectors (plotVisibility s) = vis_vectors (plotVisibility s')"
  shows "vector_at h s = vector_at h s'"
  using assms by (intro ext) (simp add: vector_at_def)

lemma contour_object_cong:
  assumes "vis_contour (plotVisibility s) = vis_contour (plotVisibility s')"
  shows "contour_object s = contour_object s'"
  using assms by (intro ext) (simp add: contour_object_def)

lemma generate2DPlotData_cong:
  assumes "vis_contour (plotVisibility s) = vis_contour (plotVisibility s')"
    and "vis_vectors (plotVisibility s) = vis_vectors (plotVisibility s')"
  shows "generate2DPlotData h s expr x0 y0 = generate2DPlotData h s' expr x0 y0"
  unfolding generate2DPlotData_def generate2D_try_def
  by (simp only: vector_at_cong [OF assms(2)] contour_object_cong [OF assms(1)])

section \<open>Toggling one flag\<close>












section \<open>Failing evaluations\<close>

lemma mapM_Inr_ex:
  assumes "\<forall>k<length xs. \<exists>v. f (xs ! k) = Inr v"
  shows "\<exists>ys. mapM f xs = Inr ys"
proof (cases "mapM f xs")
  case (Inl e)
  then obtain i where "i < length xs" "f (xs ! i) = Inl e"
    unfolding mapM_Inl_iff by blast
  with assms show ?thesis by fastforce
next
  case (Inr ys)
  then show ?thesis by blast
qed

lemma mapM_first_fails:
  assumes "0 < length xs" and "f (xs ! 0) = Inl e"
  shows "mapM f xs = Inl e"
  using assms by (cases xs) simp_all

text \<open>The first failure of a grid, row by row, is the failure of the nested map.\<close>

lemma mapM_grid_first_failure:
  assumes i: "i < length xs" and j: "j < length ys"
    and fails: "f (xs ! i) (ys ! j) = Inl e"
    and before: "\<forall>i'<length xs. \<forall>j'<length ys.
        i' < i \<or> (i' = i \<and> j' < j) \<longrightarrow> (\<exists>v. f (xs ! i') (ys ! j') = Inr v)"
  shows "mapM (\<lambda>x. mapM (\<lambda>y. f x y) ys) xs = Inl e"
proof -
  have "\<exists>k<length ys. f (xs ! i) (ys ! k) = Inl e \<and> (\<forall>k'<k. \<exists>v. f (xs ! i) (ys ! k') = Inr v)"
    using j fails before i by (intro exI [of _ j]) auto
  then have row: "mapM (\<lambda>y. f (xs ! i) y) ys = Inl e"
    by (simp only: mapM_Inl_iff)
  have rows: "\<exists>v. mapM (\<lambda>y. f (xs ! k) y) ys = Inr v" if "k < i" for k
  proof (rule mapM_Inr_ex, intro allI impI)
    fix j' assume "j' < length ys"
    with before that i show "\<exists>v. f (xs ! k) (ys ! j') = Inr v" by simp
  qed
  have "\<exists>k<length xs. mapM (\<lambda>y. f (xs ! k) y) ys = Inl e \<and>
      (\<forall>k'<k. \<exists>v. mapM (\<lambda>y. f (xs ! k') y) ys = Inr v)"
    using i row rows by (intro exI [of _ i]) simp
  then show ?thesis by (simp only: mapM_Inl_iff)
qed

lemma mapM_grid_Inr:
  assumes "mapM (\<lambda>x. mapM (\<lambda>y. f x y) ys) xs = Inr zs"
    and "i < length xs" and "j < length ys"
  shows "f (xs ! i) (ys ! j) = Inr (zs ! i ! j) \<and> i < length zs \<and> j < length (zs ! i)"
proof -
  from assms(1) have len: "length zs = length xs"
    and row: "mapM (\<lambda>y. f (xs ! i) y) ys = Inr (zs ! i)"
    using assms(2) unfolding mapM_Inr_iff by simp_all
  from row have "length (zs ! i) = length ys" "f (xs ! i) (ys ! j) = Inr (zs ! i ! j)"
    using assms(3) unfolding mapM_Inr_iff by simp_all
  with len assms(2,3) show ?thesis by simp
qed

lemma generate3D_try_Inl:
  assumes "math_parse h expr = Inr f"
    and "math_derivative h f ''x'' = Inr fx"
    and "math_derivative h f ''y'' = Inr fy"
    and "mapM (\<lambda>x. mapM (\<lambda>y. node_evaluate h f x y) (math_range (- 5) 5 (1 / 4)))
           (math_range (- 5) 5 (1 / 4)) = Inl e"
  shows "generate3DPlotData h s expr x0 y0 =
         Inl (Error (''Error generating 3D plot: '' @ message e))"
  using assms by (simp add: generate3DPlotData_def generate3D_try_def)

lemma nth_range2: "i < 20 \<Longrightarrow> math_range (- 5) 5 (1 / 2) ! i = grid2 i"
  by (simp add: math_range_def grid2_def)

lemma generate2D_try_Inr:
  "generate2D_try h s expr x0 y0 = Inr d \<longleftrightarrow>
     (\<exists>f fx fy contourZ rows.
        math_parse h expr = Inr f \<and>
        math_derivative h f ''x'' = Inr fx \<and>
        math_derivative h f ''y'' = Inr fy \<and>
        mapM (\<lambda>x. mapM (\<lambda>y. node_evaluate h f x y) (math_range (- 5) 5 (1 / 2)))
          (math_range (- 5) 5 (1 / 2)) = Inr contourZ \<and>
        mapM (\<lambda>x. mapM (\<lambda>y. vector_at h s fx fy x y) (math_range (- 5) 5 (1 / 2)))
          (math_range (- 5) 5 (1 / 2)) = Inr rows \<and>
        d = \<lparr> p2_contour = contour_object s (math_range (- 5) 5 (1 / 2))
                 (math_range (- 5) 5 (1 / 2)) contourZ,
              p2_vectors = concat rows \<rparr>)"
  unfolding generate2D_try_def Let_def bind_err_eq_Inr by blast

text \<open>
  Claim C4, as the code has it. With the expression parsed and differentiated, an
  evaluation that throws at a grid point, all earlier grid points (row by row) having
  returned, ends \<open>generate3DPlotData\<close> with the error
  \<open>Error generating 3D plot: \<close> followed by the message thrown, and no series is
  produced. What the evaluator returns without throwing is stored as it is: the surface
  of a result holds, at every grid point, the very value returned there, and so does the
  contour of the 2D data. Nothing inspects the values for \<open>NaN\<close> or an infinity.
\<close>

theorem sampling_abort_and_passthrough:
  assumes "math_parse h expr = Inr f"
    and "math_derivative h f ''x'' = Inr fx"
    and "math_derivative h f ''y'' = Inr fy"
  shows "(\<forall>i<40. \<forall>j<40. \<forall>e.
            node_evaluate h f (grid3 i) (grid3 j) = Inl e \<and>
            (\<forall>i'<40. \<forall>j'<40. i' < i \<or> (i' = i \<and> j' < j) \<longrightarrow>
               (\<exists>v. node_evaluate h f (grid3 i') (grid3 j') = Inr v)) \<longrightarrow>
            generate3DPlotData h s expr x0 y0 =
              Inl (Error (''Error generating 3D plot: '' @ message e))) \<and>
         (\<forall>d. generate3DPlotData h s expr x0 y0 = Inr d \<longrightarrow>
            (\<forall>i<40. \<forall>j<40. \<exists>v.
               node_evaluate h f (grid3 i) (grid3 j) = Inr v \<and>
               grid_at (tr_z (p3_surface d)) i j = Some v)) \<and>
         (\<forall>d. generate2DPlotData h s expr x0 y0 = Inr d \<longrightarrow>
            (\<forall>i<20. \<forall>j<20. \<exists>v.
               node_evaluate h f (grid2 i) (grid2 j) = Inr v \<and>
               grid_at (tr_z (p2_contour d)) i j = Some v))"
proof (intro conjI allI impI)
  fix i j e
  assume ij: "i < (40::nat)" "j < (40::nat)"
    and fail: "node_evaluate h f (grid3 i) (grid3 j) = Inl e \<and>
      (\<forall>i'<40. \<forall>j'<40. i' < i \<or> (i' = i \<and> j' < j) \<longrightarrow>
         (\<exists>v. node_evaluate h f (grid3 i') (grid3 j') = Inr v))"
  let ?R = "math_range (- 5) 5 (1 / 4)"
  have "mapM (\<lambda>x. mapM (\<lambda>y. node_evaluate h f x y) ?R) ?R = Inl e"
  proof (rule mapM_grid_first_failure [where i = i and j = j])
    show "i < length ?R" "j < length ?R" using ij by simp_all
    show "node_evaluate h f (?R ! i) (?R ! j) = Inl e"
      using fail ij by (simp add: nth_range3)
    show "\<forall>i'<length ?R. \<forall>j'<length ?R.
        i' < i \<or> (i' = i \<and> j' < j) \<longrightarrow> (\<exists>v. node_evaluate h f (?R ! i') (?R ! j') = Inr v)"
      using fail by (simp add: nth_range3)
  qed
  with assms show "generate3DPlotData h s expr x0 y0 =
      Inl (Error (''Error generating 3D plot: '' @ message e))"
    by (rule generate3D_try_Inl)
next
  fix d i j
  assume d: "generate3DPlotData h s expr x0 y0 = Inr d" and ij: "i < (40::nat)" "j < (40::nat)"
  let ?R = "math_range (- 5) 5 (1 / 4)"
  from d assms obtain zVals ts fx0 fy0 f0 where
    z: "mapM (\<lambda>x. mapM (\<lambda>y. node_evaluate h f x y) ?R) ?R = Inr zVals"
    and obj: "d = plot3d_object h s x0 y0 ?R ?R zVals ts fx0 fy0 f0 fx fy"
    unfolding generate3DPlotData_Inr generate3D_try_Inr by auto
  from mapM_grid_Inr [OF z, of i j] ij
  have "node_evaluate h f (grid3 i) (grid3 j) = Inr (zVals ! i ! j)"
    "i < length zVals" "j < length (zVals ! i)"
    by (simp_all add: nth_range3)
  then show "\<exists>v. node_evaluate h f (grid3 i) (grid3 j) = Inr v \<and>
      grid_at (tr_z (p3_surface d)) i j = Some v"
    by (simp add: obj grid_at_def)
next
  fix d i j
  assume d: "generate2DPlotData h s expr x0 y0 = Inr d" and ij: "i < (20::nat)" "j < (20::nat)"
  let ?R = "math_range (- 5) 5 (1 / 2)"
  from d assms obtain contourZ rows where
    z: "mapM (\<lambda>x. mapM (\<lambda>y. node_evaluate h f x y) ?R) ?R = Inr contourZ"
    and obj: "d = \<lparr> p2_contour = contour_object s ?R ?R contourZ, p2_vectors = concat rows \<rparr>"
    unfolding generate2DPlotData_Inr generate2D_try_Inr by auto
  from mapM_grid_Inr [OF z, of i j] ij
  have "node_evaluate h f (grid2 i) (grid2 j) = Inr (contourZ ! i ! j)"
    "i < length contourZ" "j < length (contourZ ! i)"
    by (simp_all add: nth_range2)
  then show "\<exists>v. node_evaluate h f (grid2 i) (grid2 j) = Inr v \<and>
      grid_at (tr_z (p2_contour d)) i j = Some v"
    by (simp add: obj grid_at_def contour_object_def)
qed

lemma mini_nthRoot_fails:
  "generate3DPlotData mini s ''nthRoot(x)'' x0 y0 =
     Inl (Error ''Error generating 3D plot: Root must be odd when a is negative.'')"
proof -
  let ?R = "math_range (- 5) 5 (1 / 4)"
  have row: "mapM (\<lambda>y. mini_evaluate (NthRoot (SymbolNode ''x'')) (?R ! 0) y) ?R =
      Inl (Error ''Root must be odd when a is negative.'')"
    by (rule mapM_first_fails) (simp_all add: nth_range3 grid3_values nthRoot_def)
  have "mapM (\<lambda>x. mapM (\<lambda>y. mini_evaluate (NthRoot (SymbolNode ''x'')) x y) ?R) ?R =
      Inl (Error ''Root must be odd when a is negative.'')"
  proof (rule mapM_first_fails)
    show "0 < length ?R" by simp
    show "mapM (\<lambda>y. mini_evaluate (NthRoot (SymbolNode ''x'')) (?R ! 0) y) ?R =
      Inl (Error ''Root must be odd when a is negative.'')"
      by (rule row)
  qed
  then have "generate3DPlotData mini s ''nthRoot(x)'' x0 y0 =
      Inl (Error (''Error generating 3D plot: '' @
        message (Error ''Root must be odd when a is negative.'')))"
    by (intro generate3D_try_Inl [where f = "NthRoot (SymbolNode ''x'')"])
       (simp_all add: mini_parse_def)
  then show ?thesis by simp
qed

theorem sampling_abort_and_passthrough_witness:
  "generate3DPlotData mini AppState ''nthRoot(x)'' (Fin 1) (Fin 2) =
     Inl (Error ''Error generating 3D plot: Root must be odd when a is negative.'') \<and>
   surface_at (generate3DPlotData mini AppState ''x^2 + y^2'' (Fin 1) (Fin 2)) 24 28 = Some (Fin 5)"
proof -
  let ?f = "NthRoot (SymbolNode ''x'')"
  let ?p = "Add (Pow (SymbolNode ''x'') 2) (Pow (SymbolNode ''y'') 2)"
  have f: "math_parse mini ''nthRoot(x)'' = Inr ?f"
    "math_derivative mini ?f ''x'' = Inr (diff ?f ''x'')"
    "math_derivative mini ?f ''y'' = Inr (diff ?f ''y'')"
    by (simp_all add: mini_parse_def)
  have p: "math_parse mini ''x^2 + y^2'' = Inr ?p"
    "math_derivative mini ?p ''x'' = Inr (diff ?p ''x'')"
    "math_derivative mini ?p ''y'' = Inr (diff ?p ''y'')"
    by (simp_all add: mini_parse_def)
  have a: "generate3DPlotData mini AppState ''nthRoot(x)'' (Fin 1) (Fin 2) =
      Inl (Error (''Error generating 3D plot: '' @ message (Error ''Root must be odd when a is negative.'')))"
    using sampling_abort_and_passthrough [OF f, of AppState "Fin 1" "Fin 2",
        THEN conjunct1, rule_format, of 0 0]
    by (simp add: grid3_values nthRoot_def)
  obtain d where d: "generate3DPlotData mini AppState ''x^2 + y^2'' (Fin 1) (Fin 2) = Inr d"
    using mini_paraboloid by blast
  have "\<exists>v. node_evaluate mini ?p (grid3 24) (grid3 28) = Inr v \<and>
      grid_at (tr_z (p3_surface d)) 24 28 = Some v"
    using sampling_abort_and_passthrough [OF p, of AppState "Fin 1" "Fin 2",
        THEN conjunct2, THEN conjunct1, rule_format, OF d, of 24 28]
    by simp
  then have "grid_at (tr_z (p3_surface d)) 24 28 = Some (Fin 5)"
    by (auto simp: grid3_values)
  with a show ?thesis by (simp add: d)
qed

text \<open>
  The claim as stated fails: \<open>1/x\<close> does not raise at the grid points with \<open>x = 0\<close>. The
  evaluator returns \<open>Infinity\<close> there, the run goes on, and the value enters the surface
  that \<open>render3DPlot\<close> passes on.
\<close>

theorem reciprocal_at_zero_counterexample:
  "grid3 20 = Fin 0 \<and>
   surface_at (generate3DPlotData mini AppState ''1/x'' (Fin 1) (Fin 2)) 20 0 = Some PInf \<and>
   surface_rendered (generate3DPlotData mini AppState ''1/x'' (Fin 1) (Fin 2))"
  by (simp add: mini_reciprocal grid_at_map nth_range3 grid3_values traces3d_def AppState_def
        surface_rendered_def)

section \<open>Validation\<close>

text \<open>
  Claim C5, as the code has it. An expression is accepted exactly when it parses and its
  evaluation at the one test point \<open>(1, 1)\<close> returns; no other point of the sampling
  domain is tried.
\<close>

theorem validation_accepts:
  "validateExpression h expr = Valid p \<longleftrightarrow>
     math_parse h expr = Inr p \<and> (\<exists>v. node_evaluate h p (Fin 1) (Fin 1) = Inr v)"
  by (auto simp: validateExpression_def split: sum.splits)

theorem validation_accepts_witness:
  "validateExpression mini ''x*y'' = Valid (Multiply (SymbolNode ''x'') (SymbolNode ''y'')) \<and>
   (\<forall>p. validateExpression mini ''x +'' \<noteq> Valid p)"
proof -
  have "math_parse mini ''x*y'' = Inr (Multiply (SymbolNode ''x'') (SymbolNode ''y'')) \<and>
      (\<exists>v. node_evaluate mini (Multiply (SymbolNode ''x'') (SymbolNode ''y'')) (Fin 1) (Fin 1) = Inr v)"
    by (simp add: mini_parse_def)
  moreover have "\<not> (math_parse mini ''x +'' = Inr p \<and>
      (\<exists>v. node_evaluate mini p (Fin 1) (Fin 1) = Inr v))" for p
    by (simp add: mini_parse_def)
  ultimately show ?thesis
    using validation_accepts [of mini "''x*y''" "Multiply (SymbolNode ''x'') (SymbolNode ''y'')"]
      validation_accepts [of mini "''x +''"]
    by blast
qed

text \<open>
  The claim as stated fails: \<open>nthRoot(x)\<close> is accepted, its evaluation throws at the first
  grid point \<open>(-5, -5)\<close>, and the sampler fails.
\<close>

theorem accepted_but_failing_counterexample:
  "validateExpression mini ''nthRoot(x)'' = Valid (NthRoot (SymbolNode ''x'')) \<and>
   grid3 0 = Fin (- 5) \<and>
   node_evaluate mini (NthRoot (SymbolNode ''x'')) (grid3 0) (grid3 0) =
     Inl (Error ''Root must be odd when a is negative.'') \<and>
   generate3DPlotData mini AppState ''nthRoot(x)'' (Fin 1) (Fin 2) =
     Inl (Error ''Error generating 3D plot: Root must be odd when a is negative.'')"
  by (simp add: mini_nthRoot_fails validateExpression_def mini_parse_def grid3_values nthRoot_def)

section \<open>The controller\<close>

lemma generate3DPlotData_ignores [simp]:
  "generate3DPlotData h (s\<lparr>currentFunction := e\<rparr>) = generate3DPlotData h s"
  "generate3DPlotData h (s\<lparr>app_x0 := a\<rparr>) = generate3DPlotData h s"
  "generate3DPlotData h (s\<lparr>app_y0 := b\<rparr>) = generate3DPlotData h s"
  "generate3DPlotData h (s\<lparr>cachedPlots := c\<rparr>) = generate3DPlotData h s"
  "generate3DPlotData h (s\<lparr>isLoading := l\<rparr>) = generate3DPlotData h s"
  by (intro ext generate3DPlotData_cong; simp)+

lemma generate2DPlotData_ignores [simp]:
  "generate2DPlotData h (s\<lparr>currentFunction := e\<rparr>) = generate2DPlotData h s"
  "generate2DPlotData h (s\<lparr>app_x0 := a\<rparr>) = generate2DPlotData h s"
  "generate2DPlotData h (s\<lparr>app_y0 := b\<rparr>) = generate2DPlotData h s"
  "generate2DPlotData h (s\<lparr>cachedPlots := c\<rparr>) = generate2DPlotData h s"
  "generate2DPlotData h (s\<lparr>isLoading := l\<rparr>) = generate2DPlotData h s"
  by (intro ext generate2DPlotData_cong; simp)+

lemmas controller_defs =
  plotFunction_def plotFunction_try_def showLoading_def hideLoading_def showError_def emit_def
  render3DPlot_def render2DPlot_def updateAnalysisSection_def Let_def

lemma plotFunction_empty:
  assumes "trim (func_value w) = []"
  shows "plotFunction h w =
     w\<lparr>app := (app w)\<lparr>isLoading := False\<rparr>,
       events := events w @
         [SetDisplay ''loadingOverlay'' ''flex'',
          ShowError ''Please enter a function'',
          ConsoleError ''Please enter a function'',
          SetDisplay ''loadingOverlay'' ''none'']\<rparr>"
  using assms by (simp add: controller_defs)

lemma plotFunction_invalid:
  assumes "trim (func_value w) \<noteq> []"
    and "validateExpression h (trim (func_value w)) = Invalid err"
  shows "plotFunction h w =
     w\<lparr>app := (app w)\<lparr>isLoading := False\<rparr>,
       events := events w @
         [SetDisplay ''loadingOverlay'' ''flex'',
          ShowError (''Invalid function: '' @ err),
          ConsoleError (''Invalid function: '' @ err),
          SetDisplay ''loadingOverlay'' ''none'']\<rparr>"
  using assms by (simp add: controller_defs)

lemma plotFunction_success:
  assumes "trim (func_value w) \<noteq> []"
    and "validateExpression h (trim (func_value w)) = Valid p"
    and "generate3DPlotData h (app w) (trim (func_value w))
           (parseFloat h (x0_value w)) (parseFloat h (y0_value w)) = Inr d3"
    and "generate2DPlotData h (app w) (trim (func_value w))
           (parseFloat h (x0_value w)) (parseFloat h (y0_value w)) = Inr d2"
    and "plotly_newPlot h ''plot3d'' (traces3d d3) (layout3d (isDarkMode (app w))) = None"
    and "plotly_newPlot h ''plot2d'' (traces2d d2) (layout2d (isDarkMode (app w))) = None"
  shows "app (plotFunction h w) =
       (app w)\<lparr>currentFunction := trim (func_value w),
               app_x0 := parseFloat h (x0_value w),
               app_y0 := parseFloat h (y0_value w),
               cachedPlots := (cachedPlots (app w))(request_key h w \<mapsto> (d3, d2)),
               isLoading := False\<rparr>"
    and "filter is_generate (events (plotFunction h w)) =
       filter is_generate (events w) @
       [Generate3D (trim (func_value w)) (parseFloat h (x0_value w)) (parseFloat h (y0_value w)),
        Generate2D (trim (func_value w)) (parseFloat h (x0_value w)) (parseFloat h (y0_value w))]"
    and "func_value (plotFunction h w) = func_value w"
    and "x0_value (plotFunction h w) = x0_value w"
    and "y0_value (plotFunction h w) = y0_value w"
  using assms by (simp_all add: controller_defs request_key_def is_generate_def)

lemma plotFunction_inputs [simp]:
  "func_value (plotFunction h w) = func_value w"
  "x0_value (plotFunction h w) = x0_value w"
  "y0_value (plotFunction h w) = y0_value w"
  by (simp_all add: controller_defs split: validation.splits sum.splits option.splits)

lemma plotFunction_events_cache:
  "events (plotFunction h (w\<lparr>app := (app w)\<lparr>cachedPlots := c\<rparr>\<rparr>)) = events (plotFunction h w)"
  by (simp add: controller_defs split: validation.splits sum.splits option.splits)

lemma plotFunction_generates:
  assumes "trim (func_value w) \<noteq> []"
    and "validateExpression h (trim (func_value w)) = Valid p"
  shows "Generate3D (trim (func_value w)) (parseFloat h (x0_value w)) (parseFloat h (y0_value w))
     \<in> set (drop (length (events w)) (events (plotFunction h w)))"
  using assms by (simp add: controller_defs split: validation.splits sum.splits option.splits)

lemma plotFunction_cache:
  "cachedPlots (app (plotFunction h w)) = cachedPlots (app w) \<or>
   (\<exists>d3 d2.
      generate3DPlotData h (app w) (trim (func_value w))
        (parseFloat h (x0_value w)) (parseFloat h (y0_value w)) = Inr d3 \<and>
      generate2DPlotData h (app w) (trim (func_value w))
        (parseFloat h (x0_value w)) (parseFloat h (y0_value w)) = Inr d2 \<and>
      cachedPlots (app (plotFunction h w)) = (cachedPlots (app w))(request_key h w \<mapsto> (d3, d2)))"
  by (simp add: controller_defs request_key_def split: validation.splits sum.splits option.splits)

lemma plotFunction_theme [simp]:
  "isDarkMode (app (plotFunction h w)) = isDarkMode (app w)"
  "plotVisibility (app (plotFunction h w)) = plotVisibility (app w)"
  by (simp_all add: controller_defs split: validation.splits sum.splits option.splits)

lemma validateExpression_Invalid:
  "(\<exists>err. validateExpression h expr = Invalid err) \<longleftrightarrow>
     (\<exists>e. math_parse h expr = Inl e) \<or>
     (\<exists>p e. math_parse h expr = Inr p \<and> node_evaluate h p (Fin 1) (Fin 1) = Inl e)"
  by (auto simp: validateExpression_def split: sum.splits)

text \<open>
  Claim C3. When the trimmed text is empty, does not parse, or throws at the test
  evaluation, \<open>plotFunction\<close> shows and logs one error message and does nothing else: no
  generator is called, and \<open>AppState\<close> is as before with \<open>isLoading\<close> reset, so the stored
  expression and point keep their values.
\<close>

theorem validation_failure_reported:
  assumes "trim (func_value w) = [] \<or>
     (\<exists>e. math_parse h (trim (func_value w)) = Inl e) \<or>
     (\<exists>p e. math_parse h (trim (func_value w)) = Inr p \<and>
        node_evaluate h p (Fin 1) (Fin 1) = Inl e)"
  shows "\<exists>msg.
     events (plotFunction h w) =
       events w @ [SetDisplay ''loadingOverlay'' ''flex'', ShowError msg, ConsoleError msg,
                   SetDisplay ''loadingOverlay'' ''none''] \<and>
     (msg = ''Please enter a function'' \<and> trim (func_value w) = [] \<or>
      (\<exists>err. msg = ''Invalid function: '' @ err \<and>
         validateExpression h (trim (func_value w)) = Invalid err)) \<and>
     filter is_generate (events (plotFunction h w)) = filter is_generate (events w) \<and>
     app (plotFunction h w) = (app w)\<lparr>isLoading := False\<rparr> \<and>
     currentFunction (app (plotFunction h w)) = currentFunction (app w) \<and>
     app_x0 (app (plotFunction h w)) = app_x0 (app w) \<and>
     app_y0 (app (plotFunction h w)) = app_y0 (app w)"
proof (cases "trim (func_value w) = []")
  case True
  show ?thesis
    by (intro exI [of _ "''Please enter a function''"])
       (simp add: plotFunction_empty [OF True] True is_generate_def)
next
  case False
  with assms obtain err where err: "validateExpression h (trim (func_value w)) = Invalid err"
    using validateExpression_Invalid [of h "trim (func_value w)"] by blast
  show ?thesis
    by (intro exI [of _ "''Invalid function: '' @ err"])
       (simp add: plotFunction_invalid [OF False err] err is_generate_def)
qed

lemma trim_examples [simp]:
  "trim ''x +'' = ''x +''" "trim ''x*y'' = ''x*y''" "trim ''x^2'' = ''x^2''"
  "trim ''x^2 '' = ''x^2''"
  by (simp_all add: trim_def is_space_def)

theorem validation_failure_reported_witness:
  "events (plotFunction mini (page ''x +'' ''3'' ''4'')) =
     [SetDisplay ''loadingOverlay'' ''flex'',
      ShowError ''Invalid function: Unexpected end of expression'',
      ConsoleError ''Invalid function: Unexpected end of expression'',
      SetDisplay ''loadingOverlay'' ''none''] \<and>
   currentFunction (app (plotFunction mini (page ''x +'' ''3'' ''4''))) = ''x^2 + y^2'' \<and>
   app_x0 (app (plotFunction mini (page ''x +'' ''3'' ''4''))) = Fin 1 \<and>
   app_y0 (app (plotFunction mini (page ''x +'' ''3'' ''4''))) = Fin 2"
proof -
  let ?w = "page ''x +'' ''3'' ''4''"
  have v: "validateExpression mini ''x +'' = Invalid ''Unexpected end of expression''"
    by (simp add: validateExpression_def mini_parse_def)
  have "trim (func_value ?w) = [] \<or>
     (\<exists>e. math_parse mini (trim (func_value ?w)) = Inl e) \<or>
     (\<exists>p e. math_parse mini (trim (func_value ?w)) = Inr p \<and>
        node_evaluate mini p (Fin 1) (Fin 1) = Inl e)"
    by (simp add: page_def mini_parse_def)
  from validation_failure_reported [OF this] obtain msg where
    ev: "events (plotFunction mini ?w) =
       events ?w @ [SetDisplay ''loadingOverlay'' ''flex'', ShowError msg, ConsoleError msg,
                   SetDisplay ''loadingOverlay'' ''none'']"
    and msg: "msg = ''Please enter a function'' \<and> trim (func_value ?w) = [] \<or>
      (\<exists>err. msg = ''Invalid function: '' @ err \<and>
         validateExpression mini (trim (func_value ?w)) = Invalid err)"
    and st: "currentFunction (app (plotFunction mini ?w)) = currentFunction (app ?w)"
      "app_x0 (app (plotFunction mini ?w)) = app_x0 (app ?w)"
      "app_y0 (app (plotFunction mini ?w)) = app_y0 (app ?w)"
    by blast
  from msg have "msg = ''Invalid function: Unexpected end of expression''"
    by (auto simp: page_def v)
  with ev st show ?thesis by (simp add: page_def AppState_def)
qed

section \<open>The cache\<close>

lemma vector_at_total:
  assumes "\<And>x y. \<exists>v. node_evaluate h fx x y = Inr v"
    and "\<And>x y. \<exists>v. node_evaluate h fy x y = Inr v"
  shows "\<exists>v. vector_at h s fx fy x y = Inr v"
proof -
  obtain gx gy where "node_evaluate h fx x y = Inr gx" "node_evaluate h fy x y = Inr gy"
    using assms by blast
  then show ?thesis by (simp add: vector_at_def)
qed

lemma mapM_grid_Inr_ex:
  assumes "\<And>x y. \<exists>v. f x y = Inr v"
  shows "\<exists>zs. mapM (\<lambda>x. mapM (\<lambda>y. f x y) ys) xs = Inr zs"
proof -
  have "\<exists>row. mapM (\<lambda>y. f x y) ys = Inr row" for x
    by (rule mapM_Inr_ex) (simp add: assms)
  then show ?thesis by (intro mapM_Inr_ex) simp
qed

lemma generate2DPlotData_total:
  assumes "math_parse h expr = Inr f"
    and "math_derivative h f ''x'' = Inr fx"
    and "math_derivative h f ''y'' = Inr fy"
    and "\<And>x y. \<exists>v. node_evaluate h f x y = Inr v"
    and "\<And>x y. \<exists>v. node_evaluate h fx x y = Inr v"
    and "\<And>x y. \<exists>v. node_evaluate h fy x y = Inr v"
  shows "\<exists>d. generate2DPlotData h s expr x0 y0 = Inr d"
proof -
  let ?R = "math_range (- 5) 5 (1 / 2)"
  obtain contourZ where
    z: "mapM (\<lambda>x. mapM (\<lambda>y. node_evaluate h f x y) ?R) ?R = Inr contourZ"
    using mapM_grid_Inr_ex [of "node_evaluate h f", OF assms(4)] by blast
  obtain rows where
    r: "mapM (\<lambda>x. mapM (\<lambda>y. vector_at h s fx fy x y) ?R) ?R = Inr rows"
    using mapM_grid_Inr_ex [of "vector_at h s fx fy", OF vector_at_total [OF assms(5,6)]]
    by blast
  from z r assms(1-3) show ?thesis
    unfolding generate2DPlotData_Inr generate2D_try_Inr by blast
qed

lemma mini_saddle_2d: "\<exists>d. generate2DPlotData mini s ''x*y'' x0 y0 = Inr d"
  by (rule generate2DPlotData_total
        [where f = "Multiply (SymbolNode ''x'') (SymbolNode ''y'')"
           and fx = "diff (Multiply (SymbolNode ''x'') (SymbolNode ''y'')) ''x''"
           and fy = "diff (Multiply (SymbolNode ''x'') (SymbolNode ''y'')) ''y''"])
     (simp_all add: mini_parse_def)

lemma mini_parseFloat_examples [simp]:
  "mini_parseFloat ''0'' = Fin 0" "mini_parseFloat ''1'' = Fin 1" "mini_parseFloat ''2'' = Fin 2"
  by (simp_all add: mini_parseFloat_def parse_digits_def is_digit_def digit_value_def)

lemma mini_toString_examples [simp]:
  "mini_toString (Fin 0) = ''0''" "mini_toString (Fin 1) = ''1''" "mini_toString (Fin 2) = ''2''"
  by (simp_all add: mini_toString_def sign_text_def show_nat.simps digit_def)

lemma plotFunction_generates_2d:
  assumes "trim (func_value w) \<noteq> []"
    and "validateExpression h (trim (func_value w)) = Valid p"
    and "generate3DPlotData h (app w) (trim (func_value w))
           (parseFloat h (x0_value w)) (parseFloat h (y0_value w)) = Inr d3"
  shows "Generate2D (trim (func_value w)) (parseFloat h (x0_value w)) (parseFloat h (y0_value w))
     \<in> set (drop (length (events w)) (events (plotFunction h w)))"
  using assms by (simp add: controller_defs split: validation.splits sum.splits option.splits)

lemma plotFunction_cache_unchanged:
  assumes "\<not> (trim (func_value w) \<noteq> [] \<and>
     (\<exists>p. validateExpression h (trim (func_value w)) = Valid p) \<and>
     (\<exists>d3 d2.
        generate3DPlotData h (app w) (trim (func_value w))
          (parseFloat h (x0_value w)) (parseFloat h (y0_value w)) = Inr d3 \<and>
        generate2DPlotData h (app w) (trim (func_value w))
          (parseFloat h (x0_value w)) (parseFloat h (y0_value w)) = Inr d2 \<and>
        plotly_newPlot h ''plot3d'' (traces3d d3) (layout3d (isDarkMode (app w))) = None \<and>
        plotly_newPlot h ''plot2d'' (traces2d d2) (layout2d (isDarkMode (app w))) = None))"
  shows "cachedPlots (app (plotFunction h w)) = cachedPlots (app w)"
  using assms by (auto simp: controller_defs split: validation.splits sum.splits option.splits)

text \<open>
  Claim C2, as the code has it. \<open>plotFunction\<close> never reads \<open>AppState.cachedPlots\<close>: with
  any cache in place of the present one the run logs the same events. A request that
  passes validation calls \<open>generate3DPlotData\<close> again, stored key or not, and
  \<open>generate2DPlotData\<close> as well when the 3D data are returned. A run in which both
  generators return and both promises of \<open>Plotly.newPlot\<close> are fulfilled stores the pair it
  has just generated under the key of the request, over any earlier entry; every other run
  leaves the cache as it was.
\<close>

theorem cache_is_write_only:
  "events (plotFunction h (w\<lparr>app := (app w)\<lparr>cachedPlots := c\<rparr>\<rparr>)) = events (plotFunction h w) \<and>
   (trim (func_value w) \<noteq> [] \<and> (\<exists>p. validateExpression h (trim (func_value w)) = Valid p) \<longrightarrow>
      Generate3D (trim (func_value w)) (parseFloat h (x0_value w)) (parseFloat h (y0_value w))
        \<in> set (drop (length (events w)) (events (plotFunction h w)))) \<and>
   (trim (func_value w) \<noteq> [] \<and> (\<exists>p. validateExpression h (trim (func_value w)) = Valid p) \<and>
    (\<exists>d3. generate3DPlotData h (app w) (trim (func_value w))
            (parseFloat h (x0_value w)) (parseFloat h (y0_value w)) = Inr d3) \<longrightarrow>
      Generate2D (trim (func_value w)) (parseFloat h (x0_value w)) (parseFloat h (y0_value w))
        \<in> set (drop (length (events w)) (events (plotFunction h w)))) \<and>
   (\<forall>d3 d2.
      trim (func_value w) \<noteq> [] \<and> (\<exists>p. validateExpression h (trim (func_value w)) = Valid p) \<and>
      generate3DPlotData h (app w) (trim (func_value w))
        (parseFloat h (x0_value w)) (parseFloat h (y0_value w)) = Inr d3 \<and>
      generate2DPlotData h (app w) (trim (func_value w))
        (parseFloat h (x0_value w)) (parseFloat h (y0_value w)) = Inr d2 \<and>
      plotly_newPlot h ''plot3d'' (traces3d d3) (layout3d (isDarkMode (app w))) = None \<and>
      plotly_newPlot h ''plot2d'' (traces2d d2) (layout2d (isDarkMode (app w))) = None \<longrightarrow>
      cachedPlots (app (plotFunction h w)) =
        (cachedPlots (app w))(request_key h w \<mapsto> (d3, d2))) \<and>
   (\<not> (trim (func_value w) \<noteq> [] \<and>
       (\<exists>p. validateExpression h (trim (func_value w)) = Valid p) \<and>
       (\<exists>d3 d2.
          generate3DPlotData h (app w) (trim (func_value w))
            (parseFloat h (x0_value w)) (parseFloat h (y0_value w)) = Inr d3 \<and>
          generate2DPlotData h (app w) (trim (func_value w))
            (parseFloat h (x0_value w)) (parseFloat h (y0_value w)) = Inr d2 \<and>
          plotly_newPlot h ''plot3d'' (traces3d d3) (layout3d (isDarkMode (app w))) = None \<and>
          plotly_newPlot h ''plot2d'' (traces2d d2) (layout2d (isDarkMode (app w))) = None)) \<longrightarrow>
      cachedPlots (app (plotFunction h w)) = cachedPlots (app w))"
proof (intro conjI allI impI)
  show "events (plotFunction h (w\<lparr>app := (app w)\<lparr>cachedPlots := c\<rparr>\<rparr>)) = events (plotFunction h w)"
    by (rule plotFunction_events_cache)
next
  assume "trim (func_value w) \<noteq> [] \<and> (\<exists>p. validateExpression h (trim (func_value w)) = Valid p)"
  then show "Generate3D (trim (func_value w)) (parseFloat h (x0_value w)) (parseFloat h (y0_value w))
        \<in> set (drop (length (events w)) (events (plotFunction h w)))"
    using plotFunction_generates [where h = h and w = w] by blast
next
  assume "trim (func_value w) \<noteq> [] \<and> (\<exists>p. validateExpression h (trim (func_value w)) = Valid p) \<and>
    (\<exists>d3. generate3DPlotData h (app w) (trim (func_value w))
            (parseFloat h (x0_value w)) (parseFloat h (y0_value w)) = Inr d3)"
  then show "Generate2D (trim (func_value w)) (parseFloat h (x0_value w)) (parseFloat h (y0_value w))
        \<in> set (drop (length (events w)) (events (plotFunction h w)))"
    using plotFunction_generates_2d [where h = h and w = w] by blast
next
  fix d3 d2
  assume "trim (func_value w) \<noteq> [] \<and> (\<exists>p. validateExpression h (trim (func_value w)) = Valid p) \<and>
      generate3DPlotData h (app w) (trim (func_value w))
        (parseFloat h (x0_value w)) (parseFloat h (y0_value w)) = Inr d3 \<and>
      generate2DPlotData h (app w) (trim (func_value w))
        (parseFloat h (x0_value w)) (parseFloat h (y0_value w)) = Inr d2 \<and>
      plotly_newPlot h ''plot3d'' (traces3d d3) (layout3d (isDarkMode (app w))) = None \<and>
      plotly_newPlot h ''plot2d'' (traces2d d2) (layout2d (isDarkMode (app w))) = None"
  then obtain p where "trim (func_value w) \<noteq> []"
    "validateExpression h (trim (func_value w)) = Valid p"
    "generate3DPlotData h (app w) (trim (func_value w))
        (parseFloat h (x0_value w)) (parseFloat h (y0_value w)) = Inr d3"
    "generate2DPlotData h (app w) (trim (func_value w))
        (parseFloat h (x0_value w)) (parseFloat h (y0_value w)) = Inr d2"
    "plotly_newPlot h ''plot3d'' (traces3d d3) (layout3d (isDarkMode (app w))) = None"
    "plotly_newPlot h ''plot2d'' (traces2d d2) (layout2d (isDarkMode (app w))) = None"
    by blast
  from plotFunction_success(1) [OF this]
  show "cachedPlots (app (plotFunction h w)) = (cachedPlots (app w))(request_key h w \<mapsto> (d3, d2))"
    by simp
next
  assume "\<not> (trim (func_value w) \<noteq> [] \<and>
       (\<exists>p. validateExpression h (trim (func_value w)) = Valid p) \<and>
       (\<exists>d3 d2.
          generate3DPlotData h (app w) (trim (func_value w))
            (parseFloat h (x0_value w)) (parseFloat h (y0_value w)) = Inr d3 \<and>
          generate2DPlotData h (app w) (trim (func_value w))
            (parseFloat h (x0_value w)) (parseFloat h (y0_value w)) = Inr d2 \<and>
          plotly_newPlot h ''plot3d'' (traces3d d3) (layout3d (isDarkMode (app w))) = None \<and>
          plotly_newPlot h ''plot2d'' (traces2d d2) (layout2d (isDarkMode (app w))) = None))"
  then show "cachedPlots (app (plotFunction h w)) = cachedPlots (app w)"
    by (rule plotFunction_cache_unchanged)
qed

lemma mini_saddle_run:
  assumes "func_value w = ''x*y''" and "x0_value w = ''0''" and "y0_value w = ''0''"
    and "isDarkMode (app w) = False"
  shows "request_key mini w = ''x*y_0_0_false''"
    and "cachedPlots (app (plotFunction mini w)) ''x*y_0_0_false'' \<noteq> None"
    and "length (filter is_generate (events (plotFunction mini w))) =
         length (filter is_generate (events w)) + 2"
    and "dom (cachedPlots (app (plotFunction mini w))) =
         insert ''x*y_0_0_false'' (dom (cachedPlots (app w)))"
proof -
  show key: "request_key mini w = ''x*y_0_0_false''"
    by (simp add: request_key_def cacheKey_def assms)
  obtain d3 where d3: "generate3DPlotData mini (app w) ''x*y'' (Fin 0) (Fin 0) = Inr d3"
    using mini_saddle by blast
  obtain d2 where d2: "generate2DPlotData mini (app w) ''x*y'' (Fin 0) (Fin 0) = Inr d2"
    using mini_saddle_2d by blast
  have v: "validateExpression mini ''x*y'' = Valid (Multiply (SymbolNode ''x'') (SymbolNode ''y''))"
    by (simp add: validateExpression_def mini_parse_def)
  have run: "app (plotFunction mini w) =
       (app w)\<lparr>currentFunction := trim (func_value w),
               app_x0 := parseFloat mini (x0_value w),
               app_y0 := parseFloat mini (y0_value w),
               cachedPlots := (cachedPlots (app w))(request_key mini w \<mapsto> (d3, d2)),
               isLoading := False\<rparr>"
    "filter is_generate (events (plotFunction mini w)) =
       filter is_generate (events w) @
       [Generate3D (trim (func_value w)) (parseFloat mini (x0_value w)) (parseFloat mini (y0_value w)),
        Generate2D (trim (func_value w)) (parseFloat mini (x0_value w)) (parseFloat mini (y0_value w))]"
    by (rule plotFunction_success [where p = "Multiply (SymbolNode ''x'') (SymbolNode ''y'')"
          and ?d3.0 = d3 and ?d2.0 = d2]; simp add: assms v d3 d2)+
  show "cachedPlots (app (plotFunction mini w)) ''x*y_0_0_false'' \<noteq> None"
    by (simp add: run(1) key)
  show "length (filter is_generate (events (plotFunction mini w))) =
         length (filter is_generate (events w)) + 2"
    by (simp add: run(2))
  show "dom (cachedPlots (app (plotFunction mini w))) =
         insert ''x*y_0_0_false'' (dom (cachedPlots (app w)))"
    by (simp add: run(1) key)
qed

text \<open>
  The claim as stated fails: after a first request for \<open>x*y\<close> at \<open>(0, 0)\<close> the key is
  stored, and the same request again calls both generators again.
\<close>

theorem repeated_request_counterexample:
  "request_key mini (plotFunction mini (page ''x*y'' ''0'' ''0'')) = ''x*y_0_0_false'' \<and>
   cachedPlots (app (plotFunction mini (page ''x*y'' ''0'' ''0''))) ''x*y_0_0_false'' \<noteq> None \<and>
   length (filter is_generate (events (plotFunction mini (page ''x*y'' ''0'' ''0'')))) = 2 \<and>
   length (filter is_generate
     (events (plotFunction mini (plotFunction mini (page ''x*y'' ''0'' ''0''))))) = 4"
proof -
  let ?w0 = "page ''x*y'' ''0'' ''0''"
  let ?w1 = "plotFunction mini ?w0"
  have w0: "func_value ?w0 = ''x*y''" "x0_value ?w0 = ''0''" "y0_value ?w0 = ''0''"
    "isDarkMode (app ?w0) = False" "events ?w0 = []"
    by (simp_all add: page_def AppState_def)
  have w1: "func_value ?w1 = ''x*y''" "x0_value ?w1 = ''0''" "y0_value ?w1 = ''0''"
    "isDarkMode (app ?w1) = False"
    using w0 by simp_all
  have a: "cachedPlots (app ?w1) ''x*y_0_0_false'' \<noteq> None"
    "length (filter is_generate (events ?w1)) = 2"
    using mini_saddle_run(2,3) [OF w0(1-4)] by (simp_all add: w0(5))
  have b: "request_key mini ?w1 = ''x*y_0_0_false''"
    "length (filter is_generate (events (plotFunction mini ?w1))) = 4"
    using mini_saddle_run(1,3) [OF w1] a(2) by simp_all
  from a b show ?thesis by simp
qed

text \<open>
  The theorem at a request whose key is stored: the second request for \<open>x*y\<close> at
  \<open>(0, 0)\<close> calls both generators and writes the entry again.
\<close>

theorem cache_is_write_only_witness:
  "cachedPlots (app (plotFunction mini (page ''x*y'' ''0'' ''0''))) ''x*y_0_0_false'' \<noteq> None \<and>
   Generate3D ''x*y'' (Fin 0) (Fin 0) \<in>
     set (drop (length (events (plotFunction mini (page ''x*y'' ''0'' ''0''))))
            (events (plotFunction mini (plotFunction mini (page ''x*y'' ''0'' ''0''))))) \<and>
   Generate2D ''x*y'' (Fin 0) (Fin 0) \<in>
     set (drop (length (events (plotFunction mini (page ''x*y'' ''0'' ''0''))))
            (events (plotFunction mini (plotFunction mini (page ''x*y'' ''0'' ''0''))))) \<and>
   dom (cachedPlots (app (plotFunction mini (plotFunction mini (page ''x*y'' ''0'' ''0''))))) =
     {''x*y_0_0_false''}"
proof -
  let ?w0 = "page ''x*y'' ''0'' ''0''"
  let ?w1 = "plotFunction mini ?w0"
  have w0: "func_value ?w0 = ''x*y''" "x0_value ?w0 = ''0''" "y0_value ?w0 = ''0''"
    "isDarkMode (app ?w0) = False"
    by (simp_all add: page_def AppState_def)
  have w1: "func_value ?w1 = ''x*y''" "x0_value ?w1 = ''0''" "y0_value ?w1 = ''0''"
    "isDarkMode (app ?w1) = False"
    using w0 by simp_all
  have stored: "cachedPlots (app ?w1) ''x*y_0_0_false'' \<noteq> None"
    "dom (cachedPlots (app ?w1)) = {''x*y_0_0_false''}"
    using mini_saddle_run(2,4) [OF w0] by (simp_all add: page_def AppState_def)
  have key: "request_key mini ?w1 = ''x*y_0_0_false''"
    by (rule mini_saddle_run(1) [OF w1])
  obtain d3 where d3: "generate3DPlotData mini (app ?w1) ''x*y'' (Fin 0) (Fin 0) = Inr d3"
    using mini_saddle by blast
  obtain d2 where d2: "generate2DPlotData mini (app ?w1) ''x*y'' (Fin 0) (Fin 0) = Inr d2"
    using mini_saddle_2d by blast
  have valid: "trim (func_value ?w1) \<noteq> [] \<and>
      (\<exists>p. validateExpression mini (trim (func_value ?w1)) = Valid p)"
    by (simp add: page_def validateExpression_def mini_parse_def)
  have gen: "generate3DPlotData mini (app ?w1) (trim (func_value ?w1))
        (parseFloat mini (x0_value ?w1)) (parseFloat mini (y0_value ?w1)) = Inr d3"
    "generate2DPlotData mini (app ?w1) (trim (func_value ?w1))
        (parseFloat mini (x0_value ?w1)) (parseFloat mini (y0_value ?w1)) = Inr d2"
    using d3 d2 by (simp_all add: page_def)
  note inst = cache_is_write_only [where h = mini and w = ?w1 and c = Map.empty]
  have g3: "Generate3D (trim (func_value ?w1)) (parseFloat mini (x0_value ?w1))
        (parseFloat mini (y0_value ?w1))
        \<in> set (drop (length (events ?w1)) (events (plotFunction mini ?w1)))"
    using inst valid by blast
  have g2: "Generate2D (trim (func_value ?w1)) (parseFloat mini (x0_value ?w1))
        (parseFloat mini (y0_value ?w1))
        \<in> set (drop (length (events ?w1)) (events (plotFunction mini ?w1)))"
    using inst valid gen(1) by blast
  have "plotly_newPlot mini ''plot3d'' (traces3d d3) (layout3d (isDarkMode (app ?w1))) = None"
    "plotly_newPlot mini ''plot2d'' (traces2d d2) (layout2d (isDarkMode (app ?w1))) = None"
    by simp_all
  with inst valid gen have "cachedPlots (app (plotFunction mini ?w1)) =
      (cachedPlots (app ?w1))(request_key mini ?w1 \<mapsto> (d3, d2))"
    by blast
  then have "dom (cachedPlots (app (plotFunction mini ?w1))) = {''x*y_0_0_false''}"
    by (simp add: key stored(2))
  with stored(1) g3 g2 show ?thesis by (simp add: page_def)
qed

section \<open>The cache key\<close>

lemma split_at_last:
  assumes "c \<notin> set t" and "c \<notin> set t'" and "s @ c # t = s' @ c # t'"
  shows "s = s' \<and> t = t'"
  using assms(3)
proof (induction s arbitrary: s')
  case Nil
  then show ?case using assms(1) by (cases s') auto
next
  case (Cons a s)
  then show ?case using assms(2) by (cases s') auto
qed

lemma theme_text:
  "CHR ''_'' \<notin> set (if d then ''true'' else ''false'')"
  "(if d then ''true'' else ''false'') = (if d' then ''true'' else ''false'') \<longleftrightarrow> d = d'"
  by (cases d; cases d'; simp)+

lemma cacheKey_eq_iff:
  assumes "CHR ''_'' \<notin> set (number_toString h a)" and "CHR ''_'' \<notin> set (number_toString h b)"
    and "CHR ''_'' \<notin> set (number_toString h a')" and "CHR ''_'' \<notin> set (number_toString h b')"
  shows "cacheKey h e a b d = cacheKey h e' a' b' d' \<longleftrightarrow>
     e = e' \<and> number_toString h a = number_toString h a' \<and>
     number_toString h b = number_toString h b' \<and> d = d'"
proof
  let ?A = "number_toString h a" and ?A' = "number_toString h a'"
  let ?B = "number_toString h b" and ?B' = "number_toString h b'"
  let ?D = "if d then ''true'' else ''false''" and ?D' = "if d' then ''true'' else ''false''"
  assume "cacheKey h e a b d = cacheKey h e' a' b' d'"
  then have "(e @ CHR ''_'' # ?A @ CHR ''_'' # ?B) @ CHR ''_'' # ?D =
             (e' @ CHR ''_'' # ?A' @ CHR ''_'' # ?B') @ CHR ''_'' # ?D'"
    by (simp add: cacheKey_def)
  from split_at_last [OF theme_text(1) theme_text(1) this]
  have 1: "(e @ CHR ''_'' # ?A) @ CHR ''_'' # ?B = (e' @ CHR ''_'' # ?A') @ CHR ''_'' # ?B'"
    and d: "?D = ?D'" by simp_all
  from split_at_last [OF assms(2,4) 1]
  have 2: "e @ CHR ''_'' # ?A = e' @ CHR ''_'' # ?A'" and b: "?B = ?B'" by simp_all
  from split_at_last [OF assms(1,3) 2] have "e = e'" "?A = ?A'" by simp_all
  with b d show "e = e' \<and> ?A = ?A' \<and> ?B = ?B' \<and> d = d'"
    by (simp add: theme_text(2))
next
  assume "e = e' \<and> number_toString h a = number_toString h a' \<and>
     number_toString h b = number_toString h b' \<and> d = d'"
  then show "cacheKey h e a b d = cacheKey h e' a' b' d'"
    by (simp add: cacheKey_def)
qed

lemma plotFunction_stores_at_key:
  assumes "k \<noteq> request_key h w"
  shows "cachedPlots (app (plotFunction h w)) k = cachedPlots (app w) k"
  using plotFunction_cache [where h = h and w = w] assms by auto

text \<open>
  Claim C6, as the code has it. The key is the text \<open>expr_x0_y0_theme\<close> built from the
  trimmed expression, the two numbers as texts and the theme flag. Number texts hold no
  underscore, and then two keys are equal exactly when the four components are equal as
  texts. \<open>plotFunction\<close> writes the cache at the key of the trimmed text of the input
  element and nowhere else, so two input texts with the same trimmed text, the same
  point and the same theme use one key.
\<close>

theorem cache_key_exact:
  assumes "CHR ''_'' \<notin> set (number_toString h a)" and "CHR ''_'' \<notin> set (number_toString h b)"
    and "CHR ''_'' \<notin> set (number_toString h a')" and "CHR ''_'' \<notin> set (number_toString h b')"
  shows "(cacheKey h e a b d = cacheKey h e' a' b' d' \<longleftrightarrow>
            e = e' \<and> number_toString h a = number_toString h a' \<and>
            number_toString h b = number_toString h b' \<and> d = d') \<and>
         (\<forall>k. k \<noteq> cacheKey h (trim (func_value w)) (parseFloat h (x0_value w))
                     (parseFloat h (y0_value w)) (isDarkMode (app w)) \<longrightarrow>
            cachedPlots (app (plotFunction h w)) k = cachedPlots (app w) k) \<and>
         (trim (func_value w) = trim (func_value w') \<and> x0_value w = x0_value w' \<and>
          y0_value w = y0_value w' \<and> isDarkMode (app w) = isDarkMode (app w') \<longrightarrow>
            request_key h w = request_key h w')"
proof (intro conjI allI impI)
  show "cacheKey h e a b d = cacheKey h e' a' b' d' \<longleftrightarrow>
            e = e' \<and> number_toString h a = number_toString h a' \<and>
            number_toString h b = number_toString h b' \<and> d = d'"
    using assms by (rule cacheKey_eq_iff)
next
  fix k
  assume "k \<noteq> cacheKey h (trim (func_value w)) (parseFloat h (x0_value w))
                     (parseFloat h (y0_value w)) (isDarkMode (app w))"
  then show "cachedPlots (app (plotFunction h w)) k = cachedPlots (app w) k"
    by (intro plotFunction_stores_at_key) (simp add: request_key_def)
next
  assume "trim (func_value w) = trim (func_value w') \<and> x0_value w = x0_value w' \<and>
          y0_value w = y0_value w' \<and> isDarkMode (app w) = isDarkMode (app w')"
  then show "request_key h w = request_key h w'" by (simp add: request_key_def)
qed

theorem cache_key_exact_witness:
  "cacheKey mini ''x^2'' (Fin 1) (Fin 2) False \<noteq> cacheKey mini ''x^2 '' (Fin 1) (Fin 2) False \<and>
   cacheKey mini ''x^2'' (Fin 1) (Fin 2) False \<noteq> cacheKey mini ''x^2'' (Fin 1) (Fin 2) True \<and>
   cacheKey mini ''x^2'' (Fin 1) (Fin 2) False \<noteq> cacheKey mini ''x^2'' (Fin 2) (Fin 2) False \<and>
   request_key mini (page ''  x^2'' ''1'' ''2'') = request_key mini (page ''x^2'' ''1'' ''2'')"
proof -
  have u: "CHR ''_'' \<notin> set (number_toString mini (Fin 1))"
    "CHR ''_'' \<notin> set (number_toString mini (Fin 2))"
    by simp_all
  have t: "trim (func_value (page ''  x^2'' ''1'' ''2'')) = trim (func_value (page ''x^2'' ''1'' ''2'')) \<and>
      x0_value (page ''  x^2'' ''1'' ''2'') = x0_value (page ''x^2'' ''1'' ''2'') \<and>
      y0_value (page ''  x^2'' ''1'' ''2'') = y0_value (page ''x^2'' ''1'' ''2'') \<and>
      isDarkMode (app (page ''  x^2'' ''1'' ''2'')) = isDarkMode (app (page ''x^2'' ''1'' ''2''))"
    by (simp add: page_def trim_def is_space_def)
  have 1: "cacheKey mini ''x^2'' (Fin 1) (Fin 2) False \<noteq> cacheKey mini ''x^2 '' (Fin 1) (Fin 2) False"
    using cache_key_exact [OF u(1) u(2) u(1) u(2), where e = "''x^2''" and e' = "''x^2 ''"
        and d = False and d' = False, THEN conjunct1]
    by simp
  have 2: "cacheKey mini ''x^2'' (Fin 1) (Fin 2) False \<noteq> cacheKey mini ''x^2'' (Fin 1) (Fin 2) True"
    using cache_key_exact [OF u(1) u(2) u(1) u(2), where e = "''x^2''" and e' = "''x^2''"
        and d = False and d' = True, THEN conjunct1]
    by simp
  have 3: "cacheKey mini ''x^2'' (Fin 1) (Fin 2) False \<noteq> cacheKey mini ''x^2'' (Fin 2) (Fin 2) False"
    using cache_key_exact [OF u(1) u(2) u(2) u(2), where e = "''x^2''" and e' = "''x^2''"
        and d = False and d' = False, THEN conjunct1]
    by simp
  have 4: "request_key mini (page ''  x^2'' ''1'' ''2'') = request_key mini (page ''x^2'' ''1'' ''2'')"
    using cache_key_exact [OF u(1) u(2) u(1) u(2), where w = "page ''  x^2'' ''1'' ''2''"
        and w' = "page ''x^2'' ''1'' ''2''", THEN conjunct2, THEN conjunct2] t
    by blast
  from 1 2 3 4 show ?thesis by blast
qed

lemma generate3DPlotData_total_ex:
  assumes "math_parse h expr = Inr f"
    and "math_derivative h f ''x'' = Inr fx"
    and "math_derivative h f ''y'' = Inr fy"
    and "\<And>x y. \<exists>v. node_evaluate h f x y = Inr v"
    and "\<exists>v. node_evaluate h fx x0 y0 = Inr v"
    and "\<exists>v. node_evaluate h fy x0 y0 = Inr v"
  shows "\<exists>d. generate3DPlotData h s expr x0 y0 = Inr d"
proof -
  let ?R = "math_range (- 5) 5 (1 / 4)"
  obtain zVals where
    z: "mapM (\<lambda>x. mapM (\<lambda>y. node_evaluate h f x y) ?R) ?R = Inr zVals"
    using mapM_grid_Inr_ex [of "node_evaluate h f", OF assms(4)] by blast
  obtain fx0 fy0 f0 where "node_evaluate h fx x0 y0 = Inr fx0" "node_evaluate h fy x0 y0 = Inr fy0"
    "node_evaluate h f x0 y0 = Inr f0"
    using assms(4-6) by blast
  with z assms(1-3) show ?thesis
    unfolding generate3DPlotData_Inr generate3D_try_Inr by blast
qed

lemma mini_square_run:
  assumes "trim (func_value w) = ''x^2''" and "x0_value w = ''1''" and "y0_value w = ''2''"
    and "isDarkMode (app w) = False"
  shows "request_key mini w = ''x^2_1_2_false''"
    and "dom (cachedPlots (app (plotFunction mini w))) =
         insert ''x^2_1_2_false'' (dom (cachedPlots (app w)))"
proof -
  let ?f = "Pow (SymbolNode ''x'') 2"
  show key: "request_key mini w = ''x^2_1_2_false''"
    by (simp add: request_key_def cacheKey_def assms)
  have "\<exists>d. generate3DPlotData mini (app w) ''x^2'' (Fin 1) (Fin 2) = Inr d"
    by (rule generate3DPlotData_total_ex
          [where f = ?f and fx = "diff ?f ''x''" and fy = "diff ?f ''y''"])
       (simp_all add: mini_parse_def)
  then obtain d3 where d3: "generate3DPlotData mini (app w) ''x^2'' (Fin 1) (Fin 2) = Inr d3"
    by blast
  have "\<exists>d. generate2DPlotData mini (app w) ''x^2'' (Fin 1) (Fin 2) = Inr d"
    by (rule generate2DPlotData_total
          [where f = ?f and fx = "diff ?f ''x''" and fy = "diff ?f ''y''"])
       (simp_all add: mini_parse_def)
  then obtain d2 where d2: "generate2DPlotData mini (app w) ''x^2'' (Fin 1) (Fin 2) = Inr d2"
    by blast
  have v: "validateExpression mini ''x^2'' = Valid ?f"
    by (simp add: validateExpression_def mini_parse_def)
  have "app (plotFunction mini w) =
       (app w)\<lparr>currentFunction := trim (func_value w),
               app_x0 := parseFloat mini (x0_value w),
               app_y0 := parseFloat mini (y0_value w),
               cachedPlots := (cachedPlots (app w))(request_key mini w \<mapsto> (d3, d2)),
               isLoading := False\<rparr>"
    by (rule plotFunction_success(1) [where p = ?f and ?d3.0 = d3 and ?d2.0 = d2])
       (simp_all add: assms v d3 d2)
  then show "dom (cachedPlots (app (plotFunction mini w))) =
         insert ''x^2_1_2_false'' (dom (cachedPlots (app w)))"
    by (simp add: key)
qed

text \<open>
  The claim as stated fails at its own example: the input texts \<open>x^2\<close> and \<open>x^2\<close> followed
  by a space differ, both requests get the key \<open>x^2_1_2_false\<close>, and after the two runs
  the cache holds one entry.
\<close>

theorem trailing_space_counterexample:
  "func_value (page ''x^2'' ''1'' ''2'') \<noteq> func_value (page ''x^2 '' ''1'' ''2'') \<and>
   request_key mini (page ''x^2'' ''1'' ''2'') = ''x^2_1_2_false'' \<and>
   request_key mini (page ''x^2 '' ''1'' ''2'') = ''x^2_1_2_false'' \<and>
   dom (cachedPlots (app (plotFunction mini
     ((plotFunction mini (page ''x^2'' ''1'' ''2''))\<lparr>func_value := ''x^2 ''\<rparr>)))) =
     {''x^2_1_2_false''}"
proof -
  let ?w0 = "page ''x^2'' ''1'' ''2''"
  let ?w1 = "(plotFunction mini ?w0)\<lparr>func_value := ''x^2 ''\<rparr>"
  have w0: "trim (func_value ?w0) = ''x^2''" "x0_value ?w0 = ''1''" "y0_value ?w0 = ''2''"
    "isDarkMode (app ?w0) = False"
    by (simp_all add: page_def AppState_def)
  have w0': "trim (func_value (page ''x^2 '' ''1'' ''2'')) = ''x^2''"
    "x0_value (page ''x^2 '' ''1'' ''2'') = ''1''" "y0_value (page ''x^2 '' ''1'' ''2'') = ''2''"
    "isDarkMode (app (page ''x^2 '' ''1'' ''2'')) = False"
    by (simp_all add: page_def AppState_def)
  have w1: "trim (func_value ?w1) = ''x^2''" "x0_value ?w1 = ''1''" "y0_value ?w1 = ''2''"
    "isDarkMode (app ?w1) = False"
    using w0 by simp_all
  have c0: "dom (cachedPlots (app ?w0)) = {}"
    by (simp add: page_def AppState_def)
  have "dom (cachedPlots (app ?w1)) = {''x^2_1_2_false''}"
    using mini_square_run(2) [OF w0] c0 by simp
  then have "dom (cachedPlots (app (plotFunction mini ?w1))) = {''x^2_1_2_false''}"
    using mini_square_run(2) [OF w1] by simp
  moreover have "func_value ?w0 \<noteq> func_value (page ''x^2 '' ''1'' ''2'')"
    by (simp add: page_def)
  ultimately show ?thesis
    using mini_square_run(1) [OF w0] mini_square_run(1) [OF w0'] by simp
qed

section \<open>Running twice\<close>

lemma bind_run_lift [simp]:
  "bind_run (lift_run (Inr v)) k = k v"
  "bind_run (lift_run (Inl e)) k = lift_run (Inl e)"
  by (simp_all add: bind_run_def lift_run_def fun_eq_iff)

lemma answers_lift: "answers (lift_run r) r"
  by (simp add: answers_def lift_run_def)

lemma answers_bind:
  assumes "answers m r" and "\<And>v. answers (k v) (k' v)"
  shows "answers (bind_run m k) (bind_err r k')"
  unfolding answers_def
proof
  fix st
  obtain a st' where m: "m st = (a, st')" by (cases "m st")
  with assms(1) have a: "a = r" by (auto simp: answers_def dest: spec [of _ st])
  show "fst (bind_run m k st) = bind_err r k'"
  proof (cases r)
    case (Inl e)
    then show ?thesis by (simp add: bind_run_def m a)
  next
    case (Inr v)
    with assms(2) [of v] show ?thesis by (simp add: bind_run_def m a answers_def)
  qed
qed

lemma answers_mapM:
  assumes "\<And>x. answers (f x) (g x)"
  shows "answers (mapM_run f xs) (mapM g xs)"
  unfolding answers_def
proof (induction xs)
  case Nil
  show ?case by simp
next
  case (Cons x xs)
  show ?case
  proof
    fix st
    obtain a st' where fx: "f x st = (a, st')" by (cases "f x st")
    with assms [of x] have a: "a = g x" by (auto simp: answers_def dest: spec [of _ st])
    obtain b st'' where rest: "mapM_run f xs st' = (b, st'')" by (cases "mapM_run f xs st'")
    with Cons.IH have b: "b = mapM g xs" by (auto dest: spec [of _ st'])
    show "fst (mapM_run f (x # xs) st) = mapM g (x # xs)"
      by (cases "g x"; cases "mapM g xs") (simp_all add: fx a rest b)
  qed
qed

lemma answers_wrap:
  assumes "answers m r"
  shows "answers (\<lambda>st. case m st of (Inl e, st') \<Rightarrow> (Inl (F e), st') | (Inr d, st') \<Rightarrow> (Inr d, st'))
           (case r of Inl e \<Rightarrow> Inl (F e) | Inr d \<Rightarrow> Inr d)"
  unfolding answers_def
proof
  fix st
  obtain a st' where m: "m st = (a, st')" by (cases "m st")
  with assms have "a = r" by (auto simp: answers_def dest: spec [of _ st])
  then show "fst (case m st of (Inl e, st') \<Rightarrow> (Inl (F e), st') | (Inr d, st') \<Rightarrow> (Inr d, st')) =
      (case r of Inl e \<Rightarrow> Inl (F e) | Inr d \<Rightarrow> Inr d)"
    by (cases r) (simp_all add: m)
qed

text \<open>
  With an evaluator whose answers for the three nodes of the expression are those of a
  function, a run returns what the generator of the first model returns.
\<close>

lemma answers_generate3D:
  assumes "\<And>f fx fy n x y.
     math_parse h expr = Inr f \<Longrightarrow> math_derivative h f ''x'' = Inr fx \<Longrightarrow>
     math_derivative h f ''y'' = Inr fy \<Longrightarrow> n = f \<or> n = fx \<or> n = fy \<Longrightarrow>
     answers (ev n x y) (node_evaluate h n x y)"
  shows "answers (generate3DPlotData_run h ev s expr x0 y0) (generate3DPlotData h s expr x0 y0)"
proof -
  have inner: "answers (generate3D_try_run h ev s expr x0 y0) (generate3D_try h s expr x0 y0)"
  proof (cases "math_parse h expr")
    case (Inl e)
    then show ?thesis
      by (simp add: generate3D_try_run_def generate3D_try_def answers_lift)
  next
    case f: (Inr f)
    show ?thesis
    proof (cases "math_derivative h f ''x''")
      case (Inl e)
      then show ?thesis
        by (simp add: generate3D_try_run_def generate3D_try_def f answers_lift)
    next
      case fx: (Inr fx)
      show ?thesis
      proof (cases "math_derivative h f ''y''")
        case (Inl e)
        then show ?thesis
          by (simp add: generate3D_try_run_def generate3D_try_def f fx answers_lift)
      next
        case fy: (Inr fy)
        have ev: "answers (ev n x y) (node_evaluate h n x y)" if "n = f \<or> n = fx \<or> n = fy"
          for n x y
          using assms [OF f fx fy that] .
        show ?thesis
          unfolding generate3D_try_run_def generate3D_try_def Let_def
          by (simp add: f fx fy) (intro answers_bind answers_mapM answers_lift ev; simp)
      qed
    qed
  qed
  show ?thesis
    unfolding generate3DPlotData_def
    using answers_wrap [OF inner, of "\<lambda>e. Error (''Error generating 3D plot: '' @ message e)"]
    by (simp add: generate3DPlotData_run_def [abs_def])
qed

lemma answers_vector_at:
  assumes "\<And>x y. answers (ev fx x y) (node_evaluate h fx x y)"
    and "\<And>x y. answers (ev fy x y) (node_evaluate h fy x y)"
  shows "answers (vector_at_run ev s fx fy x y) (vector_at h s fx fy x y)"
  unfolding vector_at_run_def vector_at_def
  by (intro answers_bind answers_lift assms)

lemma answers_generate2D:
  assumes "\<And>f fx fy n x y.
     math_parse h expr = Inr f \<Longrightarrow> math_derivative h f ''x'' = Inr fx \<Longrightarrow>
     math_derivative h f ''y'' = Inr fy \<Longrightarrow> n = f \<or> n = fx \<or> n = fy \<Longrightarrow>
     answers (ev n x y) (node_evaluate h n x y)"
  shows "answers (generate2DPlotData_run h ev s expr x0 y0) (generate2DPlotData h s expr x0 y0)"
proof -
  have inner: "answers (generate2D_try_run h ev s expr x0 y0) (generate2D_try h s expr x0 y0)"
  proof (cases "math_parse h expr")
    case (Inl e)
    then show ?thesis
      by (simp add: generate2D_try_run_def generate2D_try_def answers_lift)
  next
    case f: (Inr f)
    show ?thesis
    proof (cases "math_derivative h f ''x''")
      case (Inl e)
      then show ?thesis
        by (simp add: generate2D_try_run_def generate2D_try_def f answers_lift)
    next
      case fx: (Inr fx)
      show ?thesis
      proof (cases "math_derivative h f ''y''")
        case (Inl e)
        then show ?thesis
          by (simp add: generate2D_try_run_def generate2D_try_def f fx answers_lift)
      next
        case fy: (Inr fy)
        have ev: "answers (ev n x y) (node_evaluate h n x y)" if "n = f \<or> n = fx \<or> n = fy"
          for n x y
          using assms [OF f fx fy that] .
        show ?thesis
          unfolding generate2D_try_run_def generate2D_try_def Let_def
          by (simp add: f fx fy)
             (intro answers_bind answers_mapM answers_lift answers_vector_at ev; simp)
      qed
    qed
  qed
  show ?thesis
    unfolding generate2DPlotData_def
    using answers_wrap [OF inner, of "\<lambda>e. Error (''Error generating 2D plot: '' @ message e)"]
    by (simp add: generate2DPlotData_run_def [abs_def])
qed

lemma run_ignores_evaluate:
  "generate3DPlotData_run (h\<lparr>node_evaluate := g\<rparr>) ev s expr x0 y0 =
     generate3DPlotData_run h ev s expr x0 y0"
  "generate2DPlotData_run (h\<lparr>node_evaluate := g\<rparr>) ev s expr x0 y0 =
     generate2DPlotData_run h ev s expr x0 y0"
  by (simp_all add: generate3DPlotData_run_def generate3D_try_run_def generate2DPlotData_run_def
        generate2D_try_run_def plot3d_object_def formatNumber_def fun_eq_iff)

lemma state_free_answers:
  assumes "state_free ev n"
  shows "answers (ev n x y) (fst (ev n x y st))"
  using assms by (auto simp: state_free_def answers_def)

text \<open>
  Claim C7, as the code has it. When the evaluation of the expression and of its two
  derivatives does not depend on the state of the random number generator, two runs of a
  generator from any two states of it, in application states that agree on the theme
  and on the five flags, return the same result: the generators read nothing else of
  \<open>AppState\<close> and have no state of their own.
\<close>

theorem rerun_identical:
  assumes free: "\<And>f fx fy.
       math_parse h expr = Inr f \<Longrightarrow> math_derivative h f ''x'' = Inr fx \<Longrightarrow>
       math_derivative h f ''y'' = Inr fy \<Longrightarrow>
       state_free ev f \<and> state_free ev fx \<and> state_free ev fy"
    and theme: "isDarkMode s = isDarkMode s'"
    and flags: "plotVisibility s = plotVisibility s'"
  shows "fst (generate3DPlotData_run h ev s expr x0 y0 st) =
           fst (generate3DPlotData_run h ev s' expr x0 y0 st') \<and>
         fst (generate2DPlotData_run h ev s expr x0 y0 st) =
           fst (generate2DPlotData_run h ev s' expr x0 y0 st')"
proof -
  let ?h = "h\<lparr>node_evaluate := \<lambda>n x y. fst (ev n x y st)\<rparr>"
  have ev: "answers (ev n x y) (node_evaluate ?h n x y)"
    if "math_parse ?h expr = Inr f" "math_derivative ?h f ''x'' = Inr fx"
      "math_derivative ?h f ''y'' = Inr fy" "n = f \<or> n = fx \<or> n = fy"
    for f fx fy n x y
  proof -
    from that(1-3) have "state_free ev f \<and> state_free ev fx \<and> state_free ev fy"
      by (intro free) simp_all
    with that(4) have "state_free ev n" by blast
    then show ?thesis using state_free_answers [of ev n x y st] by simp
  qed
  have a3: "answers (generate3DPlotData_run ?h ev t expr x0 y0) (generate3DPlotData ?h t expr x0 y0)"
    for t
    by (rule answers_generate3D) (rule ev)
  have a2: "answers (generate2DPlotData_run ?h ev t expr x0 y0) (generate2DPlotData ?h t expr x0 y0)"
    for t
    by (rule answers_generate2D) (rule ev)
  have r3: "fst (generate3DPlotData_run h ev t expr x0 y0 u) = generate3DPlotData ?h t expr x0 y0"
    for t u
    using a3 [of t] by (simp add: answers_def run_ignores_evaluate)
  have r2: "fst (generate2DPlotData_run h ev t expr x0 y0 u) = generate2DPlotData ?h t expr x0 y0"
    for t u
    using a2 [of t] by (simp add: answers_def run_ignores_evaluate)
  have "generate3DPlotData ?h s expr x0 y0 = generate3DPlotData ?h s' expr x0 y0"
    using theme flags by (intro generate3DPlotData_cong) simp_all
  moreover have "generate2DPlotData ?h s expr x0 y0 = generate2DPlotData ?h s' expr x0 y0"
    using flags by (intro generate2DPlotData_cong) simp_all
  ultimately show ?thesis by (simp add: r3 r2)
qed

lemma rnd_host_fields [simp]:
  "math_parse rnd_host = rnd_parse"
  "math_derivative rnd_host = (\<lambda>f v. Inr (rnd_derivative f v))"
  "node_evaluate rnd_host = (\<lambda>f x y. fst (rnd_evaluate f x y (\<lambda>n. 0)))"
  "number_toFixed rnd_host = mini_toFixed"
  by (simp_all add: rnd_host_def)

lemma state_free_Node [simp]: "state_free rnd_evaluate (Node f)"
  by (simp add: state_free_def)

lemma rnd_paraboloid:
  "fst (generate3DPlotData_run rnd_host rnd_evaluate s ''x^2 + y^2'' (Fin 1) (Fin 2) st) =
     generate3DPlotData rnd_host s ''x^2 + y^2'' (Fin 1) (Fin 2)"
proof -
  have "answers (generate3DPlotData_run rnd_host rnd_evaluate s ''x^2 + y^2'' (Fin 1) (Fin 2))
      (generate3DPlotData rnd_host s ''x^2 + y^2'' (Fin 1) (Fin 2))"
  proof (rule answers_generate3D)
    fix f fx fy n x y
    assume "math_parse rnd_host ''x^2 + y^2'' = Inr f"
      "math_derivative rnd_host f ''x'' = Inr fx" "math_derivative rnd_host f ''y'' = Inr fy"
      "n = f \<or> n = fx \<or> n = fy"
    then obtain q where "n = Node q"
      by (auto simp: rnd_parse_def mini_parse_def)
    then show "answers (rnd_evaluate n x y) (node_evaluate rnd_host n x y)"
      by (simp add: answers_def)
  qed
  then show ?thesis by (simp add: answers_def)
qed

lemma rnd_paraboloid_center:
  "center_value (generate3DPlotData rnd_host s ''x^2 + y^2'' (Fin 1) (Fin 2)) = Some (Fin 5)"
proof -
  let ?p = "Add (Pow (SymbolNode ''x'') 2) (Pow (SymbolNode ''y'') 2)"
  let ?R = "math_range (- 5) 5 (1 / 4)"
  have "generate3DPlotData rnd_host s ''x^2 + y^2'' (Fin 1) (Fin 2) =
     Inr (plot3d_object rnd_host s (Fin 1) (Fin 2) ?R ?R
            (map (\<lambda>x. map (\<lambda>y. jadd (jpow x 2) (jpow y 2)) ?R) ?R)
            (map (\<lambda>x. map (\<lambda>y. tangent (jadd (jpow (Fin 1) 2) (jpow (Fin 2) 2)) (Fin 2) (Fin 4)
                              (Fin 1) (Fin 2) x y) ?R) ?R)
            (Fin 2) (Fin 4) (jadd (jpow (Fin 1) 2) (jpow (Fin 2) 2))
            (rnd_derivative (Node ?p) ''x'') (rnd_derivative (Node ?p) ''y''))"
    by (rule generate3DPlotData_total [where f = "Node ?p"])
       (simp_all add: rnd_parse_def mini_parse_def)
  then show ?thesis by simp
qed

theorem rerun_identical_witness:
  "fst (generate3DPlotData_run rnd_host rnd_evaluate AppState_rnd ''x^2 + y^2'' (Fin 1) (Fin 2)
          draws0) =
   fst (generate3DPlotData_run rnd_host rnd_evaluate (AppState_rnd\<lparr>isLoading := True\<rparr>)
          ''x^2 + y^2'' (Fin 1) (Fin 2) (shift 1601 draws0)) \<and>
   fst (generate2DPlotData_run rnd_host rnd_evaluate AppState_rnd ''x^2 + y^2'' (Fin 1) (Fin 2)
          draws0) =
   fst (generate2DPlotData_run rnd_host rnd_evaluate (AppState_rnd\<lparr>isLoading := True\<rparr>)
          ''x^2 + y^2'' (Fin 1) (Fin 2) (shift 1601 draws0)) \<and>
   center_value (fst (generate3DPlotData_run rnd_host rnd_evaluate AppState_rnd ''x^2 + y^2''
          (Fin 1) (Fin 2) draws0)) = Some (Fin 5)"
proof -
  have free: "state_free rnd_evaluate f \<and> state_free rnd_evaluate fx \<and> state_free rnd_evaluate fy"
    if "math_parse rnd_host ''x^2 + y^2'' = Inr f" "math_derivative rnd_host f ''x'' = Inr fx"
      "math_derivative rnd_host f ''y'' = Inr fy" for f fx fy
    using that by (auto simp: rnd_parse_def mini_parse_def)
  have "isDarkMode AppState_rnd = isDarkMode (AppState_rnd\<lparr>isLoading := True\<rparr>)"
    and "plotVisibility AppState_rnd = plotVisibility (AppState_rnd\<lparr>isLoading := True\<rparr>)"
    by simp_all
  from rerun_identical [of rnd_host "''x^2 + y^2''" rnd_evaluate, OF free this,
      of "Fin 1" "Fin 2" draws0 "shift 1601 draws0"]
  show ?thesis by (simp add: rnd_paraboloid rnd_paraboloid_center)
qed

lemma shift_shift: "shift a (shift b st) = shift (a + b) st"
  by (simp add: shift_def add.assoc)

lemma shift_0 [simp]: "shift 0 st = st"
  by (simp add: shift_def)

text \<open>A map whose every call returns and advances the generator by \<open>k\<close> draws.\<close>

lemma mapM_run_draws:
  assumes "\<And>x st. f x st = (Inr (g x st), shift k st)"
  shows "mapM_run f xs st =
     (Inr (map (\<lambda>i. g (xs ! i) (shift (i * k) st)) [0..<length xs]), shift (length xs * k) st)"
proof (induction xs arbitrary: st)
  case Nil
  show ?case by simp
next
  case (Cons x xs)
  have head: "f x st = (Inr (g x st), shift k st)"
    by (rule assms)
  have rest: "mapM_run f xs (shift k st) =
      (Inr (map (\<lambda>i. g (xs ! i) (shift (i * k) (shift k st))) [0..<length xs]),
       shift (length xs * k) (shift k st))"
    by (rule Cons.IH)
  have run: "mapM_run f (x # xs) st =
      (Inr (g x st # map (\<lambda>i. g (xs ! i) (shift (i * k) (shift k st))) [0..<length xs]),
       shift (length xs * k) (shift k st))"
    by (simp only: mapM_run.simps head rest prod.case sum.case)
  have "map (\<lambda>i. g ((x # xs) ! i) (shift (i * k) st)) [0..<length (x # xs)] =
      g x st # map (\<lambda>i. g (xs ! i) (shift (i * k) (shift k st))) [0..<length xs]"
    by (simp add: map_upt_Suc shift_shift add.commute del: upt_Suc)
  moreover have "shift (length (x # xs) * k) st = shift (length xs * k) (shift k st)"
    by (simp add: shift_shift add.commute)
  ultimately show ?case
    by (simp only: run)
qed

lemma rnd_random_cell:
  "rnd_evaluate (PlusRandom (SymbolNode ''x'')) x y st = (Inr (jadd x (Fin (st 0))), shift 1 st)"
  by simp

lemma rnd_random_grid:
  "mapM_run (\<lambda>x. mapM_run (\<lambda>y. rnd_evaluate (PlusRandom (SymbolNode ''x'')) x y)
              (math_range (- 5) 5 (1 / 4))) (math_range (- 5) 5 (1 / 4)) st =
     (Inr (map (\<lambda>i. map (\<lambda>j. jadd (math_range (- 5) 5 (1 / 4) ! i) (Fin (st (i * 40 + j))))
                  [0..<40]) [0..<40]),
      shift 1600 st)"
proof -
  let ?R = "math_range (- 5) 5 (1 / 4)"
  have row: "mapM_run (\<lambda>y. rnd_evaluate (PlusRandom (SymbolNode ''x'')) x y) ?R u =
      (Inr (map (\<lambda>j. jadd x (Fin (u j))) [0..<40]), shift 40 u)" for x u
    using mapM_run_draws [where f = "\<lambda>y. rnd_evaluate (PlusRandom (SymbolNode ''x'')) x y"
        and g = "\<lambda>y u. jadd x (Fin (u 0))" and k = 1 and xs = ?R and st = u, OF rnd_random_cell]
    by (simp add: shift_def)
  show ?thesis
    using mapM_run_draws [where f = "\<lambda>x. mapM_run (\<lambda>y. rnd_evaluate (PlusRandom (SymbolNode ''x'')) x y) ?R"
        and g = "\<lambda>x u. map (\<lambda>j. jadd x (Fin (u j))) [0..<40]" and k = 40 and xs = ?R and st = st,
        OF row]
    by (simp add: shift_def add.commute)
qed

lemma rnd_random_run:
  "surface_at (fst (generate3DPlotData_run rnd_host rnd_evaluate s ''x + random(1)''
      (Fin 1) (Fin 2) st)) 0 0 = Some (Fin (- 5 + st 0))"
  "snd (generate3DPlotData_run rnd_host rnd_evaluate s ''x + random(1)'' (Fin 1) (Fin 2) st) =
     shift 1601 st"
  by (simp_all add: generate3DPlotData_run_def generate3D_try_run_def Let_def rnd_parse_def
        rnd_random_grid bind_run_def lift_run_def grid_at_def nth_range3 grid3_values
        shift_shift)

text \<open>
  The claim as stated fails: \<open>x + random(1)\<close> passes validation, and the second of two runs
  with the same expression, point, theme and flags, started where the first has left the
  generator, samples other heights than the first.
\<close>

theorem random_rerun_counterexample:
  "fst (validateExpression_run rnd_host rnd_evaluate ''x + random(1)'' draws0) =
     Valid (PlusRandom (SymbolNode ''x'')) \<and>
   surface_at (fst (generate3DPlotData_run rnd_host rnd_evaluate AppState_rnd ''x + random(1)''
       (Fin 1) (Fin 2) draws0)) 0 0 = Some (Fin (- 9 / 2)) \<and>
   surface_at (fst (generate3DPlotData_run rnd_host rnd_evaluate AppState_rnd ''x + random(1)''
       (Fin 1) (Fin 2)
       (snd (generate3DPlotData_run rnd_host rnd_evaluate AppState_rnd ''x + random(1)''
          (Fin 1) (Fin 2) draws0)))) 0 0 = Some (Fin (- 8014 / 1603)) \<and>
   fst (generate3DPlotData_run rnd_host rnd_evaluate AppState_rnd ''x + random(1)''
       (Fin 1) (Fin 2) draws0) \<noteq>
   fst (generate3DPlotData_run rnd_host rnd_evaluate AppState_rnd ''x + random(1)''
       (Fin 1) (Fin 2)
       (snd (generate3DPlotData_run rnd_host rnd_evaluate AppState_rnd ''x + random(1)''
          (Fin 1) (Fin 2) draws0)))"
proof -
  let ?run = "generate3DPlotData_run rnd_host rnd_evaluate AppState_rnd ''x + random(1)''
       (Fin 1) (Fin 2)"
  have v: "fst (validateExpression_run rnd_host rnd_evaluate ''x + random(1)'' draws0) =
     Valid (PlusRandom (SymbolNode ''x''))"
    by (simp add: validateExpression_run_def rnd_parse_def)
  have a: "surface_at (fst (?run draws0)) 0 0 = Some (Fin (- 9 / 2))"
    by (simp add: rnd_random_run draws0_def)
  have b: "surface_at (fst (?run (snd (?run draws0)))) 0 0 = Some (Fin (- 8014 / 1603))"
    by (simp add: rnd_random_run draws0_def shift_def)
  from a b have "fst (?run draws0) \<noteq> fst (?run (snd (?run draws0)))"
    by auto
  with v a b show ?thesis by simp
qed

end
